theory Spec2Isabelle
  imports Main "HOL-Library.Word" "HOL-Library.FSet" "HOL-Library.Multiset"
begin

unbundle bit_operations_syntax

section \<open>Version edits of MoonKV: a model of db/version\_edit.h\<close>

text \<open>
  The header declares the serialisation tags, the descriptor and metadata of a table
  file, and the class \<open>VersionEdit\<close> with its mutation interface. The functions
  below follow the inline bodies of that header one by one.

  A C++ \<open>assert\<close> is modelled as the value \<open>Inl AssertionFailure\<close>: the model is
  that of a build in which assertions are active. \<open>uint64_t\<close> and \<open>uint32_t\<close> are
  words, \<open>int\<close> levels are integers, \<open>size_t\<close> counts are natural numbers.
\<close>

type_synonym u64 = "64 word"
type_synonym u32 = "32 word"
type_synonym SequenceNumber = "64 word"
type_synonym WalNumber = "64 word"
type_synonym UniqueId64x2 = "u64 \<times> u64"

datatype error = AssertionFailure

subsection \<open>Tags\<close>

text \<open>
  The enumerators of \<open>enum Tag : uint32_t\<close>, in the order of the source. An enumerator
  without an initialiser has the value of its predecessor plus one, written here as
  the offset from the last enumerator that has an initialiser.
\<close>

datatype Tag =
    kComparator | kLogNumber | kNextFileNumber | kLastSequence | kCompactCursor
  | kDeletedFile | kNewFile | kPrevLogNumber | kMinLogNumberToKeep
  | kNewFile2 | kNewFile3 | kNewFile4
  | kColumnFamily | kColumnFamilyAdd | kColumnFamilyDrop | kMaxColumnFamily
  | kInAtomicGroup
  | kBlobFileAddition | kBlobFileGarbage
  | kTagSafeIgnoreMask
  | kDbId | kBlobFileAddition_DEPRECATED | kBlobFileGarbage_DEPRECATED
  | kWalAddition | kWalDeletion | kFullHistoryTsLow | kWalAddition2 | kWalDeletion2

fun Tag_value :: "Tag \<Rightarrow> u32" where
  "Tag_value kComparator = 1"
| "Tag_value kLogNumber = 2"
| "Tag_value kNextFileNumber = 3"
| "Tag_value kLastSequence = 4"
| "Tag_value kCompactCursor = 5"
| "Tag_value kDeletedFile = 6"
| "Tag_value kNewFile = 7"
| "Tag_value kPrevLogNumber = 9"
| "Tag_value kMinLogNumberToKeep = 10"
| "Tag_value kNewFile2 = 100"
| "Tag_value kNewFile3 = 102"
| "Tag_value kNewFile4 = 103"
| "Tag_value kColumnFamily = 200"
| "Tag_value kColumnFamilyAdd = 201"
| "Tag_value kColumnFamilyDrop = 202"
| "Tag_value kMaxColumnFamily = 203"
| "Tag_value kInAtomicGroup = 300"
| "Tag_value kBlobFileAddition = 400"
| "Tag_value kBlobFileGarbage = 400 + 1"
| "Tag_value kTagSafeIgnoreMask = push_bit 13 1"
| "Tag_value kDbId = push_bit 13 1 + 1"
| "Tag_value kBlobFileAddition_DEPRECATED = push_bit 13 1 + 2"
| "Tag_value kBlobFileGarbage_DEPRECATED = push_bit 13 1 + 3"
| "Tag_value kWalAddition = push_bit 13 1 + 4"
| "Tag_value kWalDeletion = push_bit 13 1 + 5"
| "Tag_value kFullHistoryTsLow = push_bit 13 1 + 6"
| "Tag_value kWalAddition2 = push_bit 13 1 + 7"
| "Tag_value kWalDeletion2 = push_bit 13 1 + 8"

text \<open>
  The source groups the enumerators by comments: those after
  \<open>// Forward compatible (aka ignorable) records\<close> are the ignorable ones, those
  before the mask are the mandatory ones; the mask itself is neither.
\<close>

definition forward_compatible_tags :: "Tag list" where
  "forward_compatible_tags =
     [kDbId, kBlobFileAddition_DEPRECATED, kBlobFileGarbage_DEPRECATED,
      kWalAddition, kWalDeletion, kFullHistoryTsLow, kWalAddition2, kWalDeletion2]"

definition core_tags :: "Tag list" where
  "core_tags =
     [kComparator, kLogNumber, kNextFileNumber, kLastSequence, kCompactCursor,
      kDeletedFile, kNewFile, kPrevLogNumber, kMinLogNumberToKeep]"

definition new_file_format_tags :: "Tag list" where
  "new_file_format_tags = [kNewFile2, kNewFile3, kNewFile4]"

definition column_family_tags :: "Tag list" where
  "column_family_tags = [kColumnFamily, kColumnFamilyAdd, kColumnFamilyDrop, kMaxColumnFamily]"

definition blob_tags :: "Tag list" where
  "blob_tags = [kBlobFileAddition, kBlobFileGarbage]"

definition mandatory_tags :: "Tag list" where
  "mandatory_tags =
     core_tags @ new_file_format_tags @ column_family_tags @ [kInAtomicGroup] @ blob_tags"

text \<open>The enumerators of \<open>enum NewFileCustomTag : uint32_t\<close>.\<close>

datatype NewFileCustomTag =
    kTerminate | kNeedCompaction | kMinLogNumberToKeepHack | kOldestBlobFileNumber
  | kOldestAncesterTime | kFileCreationTime | kFileChecksum | kFileChecksumFuncName
  | kTemperature | kMinTimestamp | kMaxTimestamp | kUniqueId
  | kCustomTagNonSafeIgnoreMask
  | kPathId

fun NewFileCustomTag_value :: "NewFileCustomTag \<Rightarrow> u32" where
  "NewFileCustomTag_value kTerminate = 1"
| "NewFileCustomTag_value kNeedCompaction = 2"
| "NewFileCustomTag_value kMinLogNumberToKeepHack = 3"
| "NewFileCustomTag_value kOldestBlobFileNumber = 4"
| "NewFileCustomTag_value kOldestAncesterTime = 5"
| "NewFileCustomTag_value kFileCreationTime = 6"
| "NewFileCustomTag_value kFileChecksum = 7"
| "NewFileCustomTag_value kFileChecksumFuncName = 8"
| "NewFileCustomTag_value kTemperature = 9"
| "NewFileCustomTag_value kMinTimestamp = 10"
| "NewFileCustomTag_value kMaxTimestamp = 11"
| "NewFileCustomTag_value kUniqueId = 12"
| "NewFileCustomTag_value kCustomTagNonSafeIgnoreMask = push_bit 6 1"
| "NewFileCustomTag_value kPathId = push_bit 6 1 + 1"

text \<open>
  The fields after \<open>// Forward incompatible (aka unignorable) fields\<close> are the ones a
  reader must know; the fields before the mask may be skipped.
\<close>

definition unignorable_custom_tags :: "NewFileCustomTag list" where
  "unignorable_custom_tags = [kPathId]"

definition skippable_custom_tags :: "NewFileCustomTag list" where
  "skippable_custom_tags =
     [kTerminate, kNeedCompaction, kMinLogNumberToKeepHack, kOldestBlobFileNumber,
      kOldestAncesterTime, kFileCreationTime, kFileChecksum, kFileChecksumFuncName,
      kTemperature, kMinTimestamp, kMaxTimestamp, kUniqueId]"

subsection \<open>File descriptors\<close>

definition kFileNumberMask :: u64 where
  "kFileNumberMask = 0x0FFFFFFFFFFFFFFF"

definition kUnknownOldestAncesterTime :: u64 where
  "kUnknownOldestAncesterTime = 0"

definition kUnknownFileCreationTime :: u64 where
  "kUnknownFileCreationTime = 0"

text \<open>
  Modelled from the spec: \<open>PackFileNumberAndPathId\<close> is declared \<open>extern\<close> in the
  header and defined in a file that is not part of the sources at hand. The
  specification gives \<open>packed = number | (pathId << 60)\<close> on 64-bit values and calls
  it a pure function without fallible paths.
\<close>

definition PackFileNumberAndPathId :: "u64 \<Rightarrow> u64 \<Rightarrow> u64" where
  "PackFileNumberAndPathId number path_id = number OR push_bit 60 path_id"

text \<open>
  \<open>struct FileDescriptor\<close>. The pointer \<open>table_reader\<close> is an optional address;
  the two \<open>std::map<uint32_t,uint32_t>\<close> are partial maps.
\<close>

record FileDescriptor =
  table_reader :: "nat option"
  packed_number_and_path_id :: u64
  sub_number_to_reference_key :: "u32 \<rightharpoonup> u32"
  father_number_to_reference_key :: "u32 \<rightharpoonup> u32"
  file_size :: u64
  sub_file_size :: u64
  smallest_seqno :: SequenceNumber
  largest_seqno :: SequenceNumber

text \<open>
  The constructor with eight arguments, to which all others delegate. The
  \<open>uint32_t path_id\<close> is converted to \<open>uint64_t\<close> at the call of the packing function.
\<close>

definition FileDescriptor8 ::
  "u64 \<Rightarrow> u32 \<Rightarrow> (u32 \<rightharpoonup> u32) \<Rightarrow> (u32 \<rightharpoonup> u32) \<Rightarrow> u64 \<Rightarrow> u64 \<Rightarrow>
   SequenceNumber \<Rightarrow> SequenceNumber \<Rightarrow> FileDescriptor" where
  "FileDescriptor8 number path_id sub_map father_map fsize sub_fsize s_seqno l_seqno =
     \<lparr> table_reader = None,
       packed_number_and_path_id = PackFileNumberAndPathId number (ucast path_id),
       sub_number_to_reference_key = sub_map,
       father_number_to_reference_key = father_map,
       file_size = fsize,
       sub_file_size = sub_fsize,
       smallest_seqno = s_seqno,
       largest_seqno = l_seqno \<rparr>"

text \<open>
  \<open>kMaxSequenceNumber\<close> comes from db/dbformat.h, which is not among the sources;
  the constructors that use it take it as their first argument \<open>kmax\<close>.
\<close>

definition FileDescriptor3 :: "SequenceNumber \<Rightarrow> u64 \<Rightarrow> u32 \<Rightarrow> u64 \<Rightarrow> FileDescriptor" where
  "FileDescriptor3 kmax number path_id fsize =
     FileDescriptor8 number path_id Map.empty Map.empty fsize 0 kmax 0"

definition FileDescriptor0 :: "SequenceNumber \<Rightarrow> FileDescriptor" where
  "FileDescriptor0 kmax = FileDescriptor3 kmax 0 0 0"

definition FileDescriptor5 ::
  "u64 \<Rightarrow> u32 \<Rightarrow> u64 \<Rightarrow> SequenceNumber \<Rightarrow> SequenceNumber \<Rightarrow> FileDescriptor" where
  "FileDescriptor5 number path_id fsize s_seqno l_seqno =
     FileDescriptor8 number path_id Map.empty Map.empty fsize 0 s_seqno l_seqno"

definition FileDescriptor4 :: "SequenceNumber \<Rightarrow> u64 \<Rightarrow> u32 \<Rightarrow> u64 \<Rightarrow> u64 \<Rightarrow> FileDescriptor" where
  "FileDescriptor4 kmax number path_id fsize sub_fsize =
     FileDescriptor8 number path_id Map.empty Map.empty fsize sub_fsize kmax 0"

definition FileDescriptor6 ::
  "u64 \<Rightarrow> u32 \<Rightarrow> u64 \<Rightarrow> u64 \<Rightarrow> SequenceNumber \<Rightarrow> SequenceNumber \<Rightarrow> FileDescriptor" where
  "FileDescriptor6 number path_id fsize sub_fsize s_seqno l_seqno =
     FileDescriptor8 number path_id Map.empty Map.empty fsize sub_fsize s_seqno l_seqno"

definition GetNumber :: "FileDescriptor \<Rightarrow> u64" where
  "GetNumber fd = packed_number_and_path_id fd AND kFileNumberMask"

definition GetPathId :: "FileDescriptor \<Rightarrow> u32" where
  "GetPathId fd = ucast (packed_number_and_path_id fd div (kFileNumberMask + 1))"

definition GetFileSize :: "FileDescriptor \<Rightarrow> u64" where
  "GetFileSize fd = file_size fd"

definition GetSubFileSize :: "FileDescriptor \<Rightarrow> u64" where
  "GetSubFileSize fd = sub_file_size fd"

subsection \<open>File metadata\<close>

text \<open>
  Types that the header only uses. \<open>InternalKey\<close> (db/dbformat.h) is carried as its
  encoded byte string \<open>rep\<close>, and \<open>size()\<close> is the length of that string; a
  default-constructed key is empty. \<open>Temperature\<close> (rocksdb/advanced\_options.h) is an
  enumeration over a byte and is carried as that byte. \<open>PositionKeyList\<close>
  (nvm/index/position\_key\_list.h) is opaque. The comparator
  \<open>InternalKeyComparator\<close> and the predicate \<open>InternalKey::Valid\<close> are taken as
  arguments by the functions that call them.
\<close>

datatype InternalKey = InternalKey (rep: string)

definition size_key :: "InternalKey \<Rightarrow> nat" where
  "size_key k = length (rep k)"

type_synonym Temperature = "8 word"
type_synonym InternalKeyComparator = "InternalKey \<Rightarrow> InternalKey \<Rightarrow> int"

typedecl PositionKeyList

text \<open>
  \<open>struct FileMetaData\<close>. A member name that ends in an underscore in the source is
  written without it. \<open>stats\<close> is the counter \<open>num_reads_sampled\<close> of
  \<open>FileSampledStats\<close>; \<open>table_reader_handle\<close> is an optional address.
\<close>

record FileMetaData =
  fd :: FileDescriptor
  smallest :: InternalKey
  largest :: InternalKey
  table_reader_handle :: "nat option"
  stats :: u64
  compensated_file_size :: u64
  num_entries :: u64
  num_deletions :: u64
  raw_key_size :: u64
  raw_value_size :: u64
  refs :: int
  is_deleted :: bool
  children_ranks :: "PositionKeyList list"
  total_entries :: u64
  reference_entries :: u64
  merge_entries :: u64
  being_compacted :: bool
  init_stats_from_file :: bool
  marked_for_compaction :: bool
  temperature :: Temperature
  oldest_blob_file_number :: u64
  oldest_ancester_time :: u64
  file_creation_time :: u64
  file_checksum :: string
  file_checksum_func_name :: string
  min_timestamp :: string
  max_timestamp :: string
  unique_id :: UniqueId64x2

text \<open>
  The constructor that takes the merge entries (24 arguments). Members that the constructor
  does not name keep their default member initialisers. The test hook
  \<open>TEST_SYNC_POINT_CALLBACK\<close> has no effect on the object.
\<close>

definition FileMetaData24 ::
  "u64 \<Rightarrow> u32 \<Rightarrow> PositionKeyList list \<Rightarrow> u64 \<Rightarrow> u64 \<Rightarrow> u64 \<Rightarrow>
   (u32 \<rightharpoonup> u32) \<Rightarrow> (u32 \<rightharpoonup> u32) \<Rightarrow> u64 \<Rightarrow> u64 \<Rightarrow>
   InternalKey \<Rightarrow> InternalKey \<Rightarrow> SequenceNumber \<Rightarrow> SequenceNumber \<Rightarrow> bool \<Rightarrow>
   Temperature \<Rightarrow> u64 \<Rightarrow> u64 \<Rightarrow> u64 \<Rightarrow> string \<Rightarrow> string \<Rightarrow> string \<Rightarrow> string \<Rightarrow>
   UniqueId64x2 \<Rightarrow> FileMetaData" where
  "FileMetaData24 file file_path_id c_ranks t_entries r_entries m_entries
     sub_map father_map fsize sub_fsize smallest_key largest_key smallest_seq largest_seq
     marked_for_compact temp oldest_blob_file oldest_ancester creation_time
     checksum checksum_func_name min_ts max_ts uid =
     \<lparr> fd = FileDescriptor8 file file_path_id sub_map father_map fsize sub_fsize
              smallest_seq largest_seq,
       smallest = smallest_key,
       largest = largest_key,
       table_reader_handle = None,
       stats = 0,
       compensated_file_size = 0,
       num_entries = 0,
       num_deletions = 0,
       raw_key_size = 0,
       raw_value_size = 0,
       refs = 0,
       is_deleted = False,
       children_ranks = c_ranks,
       total_entries = t_entries,
       reference_entries = r_entries,
       merge_entries = m_entries,
       being_compacted = False,
       init_stats_from_file = False,
       marked_for_compaction = marked_for_compact,
       temperature = temp,
       oldest_blob_file_number = oldest_blob_file,
       oldest_ancester_time = oldest_ancester,
       file_creation_time = creation_time,
       file_checksum = checksum,
       file_checksum_func_name = checksum_func_name,
       min_timestamp = min_ts,
       max_timestamp = max_ts,
       unique_id = uid \<rparr>"

text \<open>The constructor that does not take them (23 arguments): that member stays 0.\<close>

definition FileMetaData23 ::
  "u64 \<Rightarrow> u32 \<Rightarrow> PositionKeyList list \<Rightarrow> u64 \<Rightarrow> u64 \<Rightarrow>
   (u32 \<rightharpoonup> u32) \<Rightarrow> (u32 \<rightharpoonup> u32) \<Rightarrow> u64 \<Rightarrow> u64 \<Rightarrow>
   InternalKey \<Rightarrow> InternalKey \<Rightarrow> SequenceNumber \<Rightarrow> SequenceNumber \<Rightarrow> bool \<Rightarrow>
   Temperature \<Rightarrow> u64 \<Rightarrow> u64 \<Rightarrow> u64 \<Rightarrow> string \<Rightarrow> string \<Rightarrow> string \<Rightarrow> string \<Rightarrow>
   UniqueId64x2 \<Rightarrow> FileMetaData" where
  "FileMetaData23 file file_path_id c_ranks t_entries r_entries
     sub_map father_map fsize sub_fsize smallest_key largest_key smallest_seq largest_seq
     marked_for_compact temp oldest_blob_file oldest_ancester creation_time
     checksum checksum_func_name min_ts max_ts uid =
     \<lparr> fd = FileDescriptor8 file file_path_id sub_map father_map fsize sub_fsize
              smallest_seq largest_seq,
       smallest = smallest_key,
       largest = largest_key,
       table_reader_handle = None,
       stats = 0,
       compensated_file_size = 0,
       num_entries = 0,
       num_deletions = 0,
       raw_key_size = 0,
       raw_value_size = 0,
       refs = 0,
       is_deleted = False,
       children_ranks = c_ranks,
       total_entries = t_entries,
       reference_entries = r_entries,
       merge_entries = 0,
       being_compacted = False,
       init_stats_from_file = False,
       marked_for_compaction = marked_for_compact,
       temperature = temp,
       oldest_blob_file_number = oldest_blob_file,
       oldest_ancester_time = oldest_ancester,
       file_creation_time = creation_time,
       file_checksum = checksum,
       file_checksum_func_name = checksum_func_name,
       min_timestamp = min_ts,
       max_timestamp = max_ts,
       unique_id = uid \<rparr>"

text \<open>
  The constructor with 17 arguments delegates to the one with 24: no children ranks,
  the three entry counts 0, both maps empty, sub file size 0.
\<close>

definition FileMetaData17 ::
  "u64 \<Rightarrow> u32 \<Rightarrow> u64 \<Rightarrow> InternalKey \<Rightarrow> InternalKey \<Rightarrow> SequenceNumber \<Rightarrow> SequenceNumber \<Rightarrow>
   bool \<Rightarrow> Temperature \<Rightarrow> u64 \<Rightarrow> u64 \<Rightarrow> u64 \<Rightarrow> string \<Rightarrow> string \<Rightarrow> string \<Rightarrow> string \<Rightarrow>
   UniqueId64x2 \<Rightarrow> FileMetaData" where
  "FileMetaData17 file file_path_id fsize smallest_key largest_key smallest_seq largest_seq
     marked_for_compact temp oldest_blob_file oldest_ancester creation_time
     checksum checksum_func_name min_ts max_ts uid =
     FileMetaData24 file file_path_id [] 0 0 0 Map.empty Map.empty fsize 0
       smallest_key largest_key smallest_seq largest_seq marked_for_compact temp
       oldest_blob_file oldest_ancester creation_time checksum checksum_func_name
       min_ts max_ts uid"

text \<open>
  The default constructor \<open>FileMetaData() = default\<close>: the descriptor is
  default-constructed, both keys are empty, and every other member has its default
  member initialiser. The constants \<open>Temperature::kUnknown\<close>,
  \<open>kInvalidBlobFileNumber\<close>, \<open>kUnknownFileChecksum\<close> and
  \<open>kUnknownFileChecksumFuncName\<close> are declared in other headers and are arguments
  here, after \<open>kMaxSequenceNumber\<close>.
\<close>

definition FileMetaData0 ::
  "SequenceNumber \<Rightarrow> Temperature \<Rightarrow> u64 \<Rightarrow> string \<Rightarrow> string \<Rightarrow> FileMetaData" where
  "FileMetaData0 kmax temp_unknown invalid_blob_file unknown_checksum unknown_checksum_func_name =
     \<lparr> fd = FileDescriptor0 kmax,
       smallest = InternalKey [],
       largest = InternalKey [],
       table_reader_handle = None,
       stats = 0,
       compensated_file_size = 0,
       num_entries = 0,
       num_deletions = 0,
       raw_key_size = 0,
       raw_value_size = 0,
       refs = 0,
       is_deleted = False,
       children_ranks = [],
       total_entries = 0,
       reference_entries = 0,
       merge_entries = 0,
       being_compacted = False,
       init_stats_from_file = False,
       marked_for_compaction = False,
       temperature = temp_unknown,
       oldest_blob_file_number = invalid_blob_file,
       oldest_ancester_time = kUnknownOldestAncesterTime,
       file_creation_time = kUnknownFileCreationTime,
       file_checksum = unknown_checksum,
       file_checksum_func_name = unknown_checksum_func_name,
       min_timestamp = [],
       max_timestamp = [],
       unique_id = (0, 0) \<rparr>"

text \<open>
  \<open>UpdateBoundariesForRange\<close>: the two \<open>if\<close> statements on the keys, then
  \<open>std::min\<close> and \<open>std::max\<close> on the sequence numbers of the descriptor.
\<close>

definition UpdateBoundariesForRange ::
  "InternalKey \<Rightarrow> InternalKey \<Rightarrow> SequenceNumber \<Rightarrow> InternalKeyComparator \<Rightarrow>
   FileMetaData \<Rightarrow> FileMetaData" where
  "UpdateBoundariesForRange start end_key seqno icmp f =
     (let f1 = (if size_key (smallest f) = 0 \<or> icmp start (smallest f) < 0
                then f\<lparr>smallest := start\<rparr> else f);
          f2 = (if size_key (largest f1) = 0 \<or> icmp (largest f1) end_key < 0
                then f1\<lparr>largest := end_key\<rparr> else f1);
          f3 = f2\<lparr>fd := (fd f2)\<lparr>smallest_seqno := min (smallest_seqno (fd f2)) seqno\<rparr>\<rparr>;
          f4 = f3\<lparr>fd := (fd f3)\<lparr>largest_seqno := max (largest_seqno (fd f3)) seqno\<rparr>\<rparr>
      in f4)"

subsection \<open>Version edits\<close>

text \<open>
  \<open>BlobFileAddition\<close> and \<open>BlobFileGarbage\<close> (db/blob) are built in the header from
  five and from three values; they are those tuples here. \<open>WalMetadata\<close> and
  \<open>WalDeletion\<close> (db/wal\_edit.h) are not among the sources: the metadata is the type
  parameter \<open>'m\<close>, the deletion record the type parameter \<open>'d\<close>, and what the header
  calls on a \<open>WalDeletion\<close> is the interface below: the default constructor, the
  constructor from a WAL number, and \<open>IsEmpty\<close>.
\<close>

datatype BlobFileAddition = BlobFileAddition u64 u64 u64 string string

datatype BlobFileGarbage = BlobFileGarbage u64 u64 u64

record 'd WalDeletionOps =
  WalDeletion0 :: 'd
  WalDeletion1 :: "WalNumber \<Rightarrow> 'd"
  IsEmpty :: "'d \<Rightarrow> bool"

text \<open>
  The private members of \<open>class VersionEdit\<close>, in the order of the source. The
  \<open>std::set\<close> members are finite sets, the \<open>std::vector\<close> members are lists.
\<close>

record ('m, 'd) VersionEdit =
  max_level :: int
  db_id :: string
  comparator :: string
  log_number :: u64
  prev_log_number :: u64
  next_file_number :: u64
  max_column_family :: u32
  min_log_number_to_keep :: u64
  last_sequence :: SequenceNumber
  has_db_id :: bool
  has_comparator :: bool
  has_log_number :: bool
  has_prev_log_number :: bool
  has_next_file_number :: bool
  has_max_column_family :: bool
  has_min_log_number_to_keep :: bool
  has_last_sequence :: bool
  compact_cursors :: "(int \<times> InternalKey) list"
  deleted_files :: "(int \<times> u64) fset"
  new_files :: "(int \<times> FileMetaData) list"
  new_table_files :: "FileMetaData list"
  new_guard :: "(int \<times> string) fset"
  deleted_guard :: "(int \<times> string) fset"
  blob_file_additions :: "BlobFileAddition list"
  blob_file_garbages :: "BlobFileGarbage list"
  wal_additions :: "(WalNumber \<times> 'm) list"
  wal_deletion :: 'd
  column_family :: u32
  is_column_family_drop :: bool
  is_column_family_add :: bool
  column_family_name :: string
  is_in_atomic_group :: bool
  remaining_entries :: u32
  full_history_ts_low :: string

text \<open>A default-constructed edit: every member has its default member initialiser.\<close>

definition VersionEdit0 :: "'d WalDeletionOps \<Rightarrow> ('m, 'd) VersionEdit" where
  "VersionEdit0 W =
     \<lparr> max_level = 0, db_id = [], comparator = [], log_number = 0, prev_log_number = 0,
       next_file_number = 0, max_column_family = 0, min_log_number_to_keep = 0,
       last_sequence = 0, has_db_id = False, has_comparator = False,
       has_log_number = False, has_prev_log_number = False, has_next_file_number = False,
       has_max_column_family = False, has_min_log_number_to_keep = False,
       has_last_sequence = False, compact_cursors = [], deleted_files = {||},
       new_files = [], new_table_files = [], new_guard = {||}, deleted_guard = {||},
       blob_file_additions = [], blob_file_garbages = [], wal_additions = [],
       wal_deletion = WalDeletion0 W, column_family = 0, is_column_family_drop = False,
       is_column_family_add = False, column_family_name = [], is_in_atomic_group = False,
       remaining_entries = 0, full_history_ts_low = [] \<rparr>"

paragraph \<open>Watermarks\<close>

definition SetDBId :: "string \<Rightarrow> ('m, 'd) VersionEdit \<Rightarrow> ('m, 'd) VersionEdit" where
  "SetDBId x e = e\<lparr>has_db_id := True, db_id := x\<rparr>"

definition SetComparatorName :: "string \<Rightarrow> ('m, 'd) VersionEdit \<Rightarrow> ('m, 'd) VersionEdit" where
  "SetComparatorName name e = e\<lparr>has_comparator := True, comparator := name\<rparr>"

definition SetLogNumber :: "u64 \<Rightarrow> ('m, 'd) VersionEdit \<Rightarrow> ('m, 'd) VersionEdit" where
  "SetLogNumber num e = e\<lparr>has_log_number := True, log_number := num\<rparr>"

definition SetPrevLogNumber :: "u64 \<Rightarrow> ('m, 'd) VersionEdit \<Rightarrow> ('m, 'd) VersionEdit" where
  "SetPrevLogNumber num e = e\<lparr>has_prev_log_number := True, prev_log_number := num\<rparr>"

definition SetNextFile :: "u64 \<Rightarrow> ('m, 'd) VersionEdit \<Rightarrow> ('m, 'd) VersionEdit" where
  "SetNextFile num e = e\<lparr>has_next_file_number := True, next_file_number := num\<rparr>"

definition SetMaxColumnFamily :: "u32 \<Rightarrow> ('m, 'd) VersionEdit \<Rightarrow> ('m, 'd) VersionEdit" where
  "SetMaxColumnFamily x e = e\<lparr>has_max_column_family := True, max_column_family := x\<rparr>"

definition SetMinLogNumberToKeep :: "u64 \<Rightarrow> ('m, 'd) VersionEdit \<Rightarrow> ('m, 'd) VersionEdit" where
  "SetMinLogNumberToKeep num e =
     e\<lparr>has_min_log_number_to_keep := True, min_log_number_to_keep := num\<rparr>"

definition SetLastSequence ::
  "SequenceNumber \<Rightarrow> ('m, 'd) VersionEdit \<Rightarrow> ('m, 'd) VersionEdit" where
  "SetLastSequence seq e = e\<lparr>has_last_sequence := True, last_sequence := seq\<rparr>"

definition HasLastSequence :: "('m, 'd) VersionEdit \<Rightarrow> bool" where
  "HasLastSequence e = has_last_sequence e"

definition GetLastSequence :: "('m, 'd) VersionEdit \<Rightarrow> SequenceNumber" where
  "GetLastSequence e = last_sequence e"

paragraph \<open>Files\<close>

definition DeleteFile :: "int \<Rightarrow> u64 \<Rightarrow> ('m, 'd) VersionEdit \<Rightarrow> ('m, 'd) VersionEdit" where
  "DeleteFile level file e = e\<lparr>deleted_files := finsert (level, file) (deleted_files e)\<rparr>"

definition GetDeletedFiles :: "('m, 'd) VersionEdit \<Rightarrow> (int \<times> u64) fset" where
  "GetDeletedFiles e = deleted_files e"

text \<open>\<open>AddFile(int level, const FileMetaData& f)\<close>.\<close>

definition AddFile ::
  "int \<Rightarrow> FileMetaData \<Rightarrow> ('m, 'd) VersionEdit \<Rightarrow> error + ('m, 'd) VersionEdit" where
  "AddFile level f e =
     (if \<not> smallest_seqno (fd f) \<le> largest_seqno (fd f) then Inl AssertionFailure
      else
        let e1 = e\<lparr>new_files := new_files e @ [(level, f)]\<rparr>
        in Inr (if \<not> HasLastSequence e1 \<or> largest_seqno (fd f) > GetLastSequence e1
                then SetLastSequence (largest_seqno (fd f)) e1 else e1))"

text \<open>The overload of \<open>AddFile\<close> with 18 arguments: level and the 17 of the metadata.\<close>

definition AddFile18 ::
  "int \<Rightarrow> u64 \<Rightarrow> u32 \<Rightarrow> u64 \<Rightarrow> InternalKey \<Rightarrow> InternalKey \<Rightarrow> SequenceNumber \<Rightarrow>
   SequenceNumber \<Rightarrow> bool \<Rightarrow> Temperature \<Rightarrow> u64 \<Rightarrow> u64 \<Rightarrow> u64 \<Rightarrow> string \<Rightarrow> string \<Rightarrow>
   string \<Rightarrow> string \<Rightarrow> UniqueId64x2 \<Rightarrow> ('m, 'd) VersionEdit \<Rightarrow> error + ('m, 'd) VersionEdit" where
  "AddFile18 level file file_path_id fsize smallest_key largest_key s_seqno l_seqno
     marked temp oldest_blob oldest_ancester creation_time checksum checksum_func_name
     min_ts max_ts uid e =
     (if \<not> s_seqno \<le> l_seqno then Inl AssertionFailure
      else
        let e1 = e\<lparr>new_files := new_files e @
                   [(level, FileMetaData17 file file_path_id fsize smallest_key largest_key
                       s_seqno l_seqno marked temp oldest_blob oldest_ancester creation_time
                       checksum checksum_func_name min_ts max_ts uid)]\<rparr>
        in Inr (if \<not> HasLastSequence e1 \<or> l_seqno > GetLastSequence e1
                then SetLastSequence l_seqno e1 else e1))"

text \<open>
  The overload of \<open>AddFile\<close> for an index file (22 arguments): the reference entries
  are the total entries, the father map is empty, the sub file size is 0.
\<close>

definition AddFile22 ::
  "int \<Rightarrow> u64 \<Rightarrow> u32 \<Rightarrow> PositionKeyList list \<Rightarrow> u64 \<Rightarrow> u64 \<Rightarrow> (u32 \<rightharpoonup> u32) \<Rightarrow> u64 \<Rightarrow>
   InternalKey \<Rightarrow> InternalKey \<Rightarrow> SequenceNumber \<Rightarrow> SequenceNumber \<Rightarrow> bool \<Rightarrow>
   Temperature \<Rightarrow> u64 \<Rightarrow> u64 \<Rightarrow> u64 \<Rightarrow> string \<Rightarrow> string \<Rightarrow> string \<Rightarrow> string \<Rightarrow>
   UniqueId64x2 \<Rightarrow> ('m, 'd) VersionEdit \<Rightarrow> error + ('m, 'd) VersionEdit" where
  "AddFile22 level file file_path_id c_ranks t_entries m_entries sub_map fsize
     smallest_key largest_key s_seqno l_seqno marked temp oldest_blob oldest_ancester
     creation_time checksum checksum_func_name min_ts max_ts uid e =
     (if \<not> s_seqno \<le> l_seqno then Inl AssertionFailure
      else
        let e1 = e\<lparr>new_files := new_files e @
                   [(level, FileMetaData24 file file_path_id c_ranks t_entries t_entries
                       m_entries sub_map Map.empty fsize 0 smallest_key largest_key
                       s_seqno l_seqno marked temp oldest_blob oldest_ancester creation_time
                       checksum checksum_func_name min_ts max_ts uid)]\<rparr>
        in Inr (if \<not> HasLastSequence e1 \<or> l_seqno > GetLastSequence e1
                then SetLastSequence l_seqno e1 else e1))"

text \<open>\<open>AddTableFile(const FileMetaData& f)\<close>.\<close>

definition AddTableFile ::
  "FileMetaData \<Rightarrow> ('m, 'd) VersionEdit \<Rightarrow> error + ('m, 'd) VersionEdit" where
  "AddTableFile f e =
     (if \<not> smallest_seqno (fd f) \<le> largest_seqno (fd f) then Inl AssertionFailure
      else
        let e1 = e\<lparr>new_table_files := new_table_files e @ [f]\<rparr>
        in Inr (if \<not> HasLastSequence e1 \<or> largest_seqno (fd f) > GetLastSequence e1
                then SetLastSequence (largest_seqno (fd f)) e1 else e1))"

text \<open>
  The overload of \<open>AddTableFile\<close> with 18 arguments; \<open>total_entries\<close> is a
  \<open>uint32_t\<close> here and is widened for the constructor.
\<close>

definition AddTableFile18 ::
  "u64 \<Rightarrow> u32 \<Rightarrow> u32 \<Rightarrow> u64 \<Rightarrow> InternalKey \<Rightarrow> InternalKey \<Rightarrow> SequenceNumber \<Rightarrow>
   SequenceNumber \<Rightarrow> bool \<Rightarrow> Temperature \<Rightarrow> u64 \<Rightarrow> u64 \<Rightarrow> u64 \<Rightarrow> string \<Rightarrow> string \<Rightarrow>
   string \<Rightarrow> string \<Rightarrow> UniqueId64x2 \<Rightarrow> ('m, 'd) VersionEdit \<Rightarrow> error + ('m, 'd) VersionEdit" where
  "AddTableFile18 file file_path_id t_entries fsize smallest_key largest_key s_seqno l_seqno
     marked temp oldest_blob oldest_ancester creation_time checksum checksum_func_name
     min_ts max_ts uid e =
     (if \<not> s_seqno \<le> l_seqno then Inl AssertionFailure
      else
        let e1 = e\<lparr>new_table_files := new_table_files e @
                   [FileMetaData24 file file_path_id [] (ucast t_entries) 0 0
                      Map.empty Map.empty fsize 0 smallest_key largest_key
                      s_seqno l_seqno marked temp oldest_blob oldest_ancester creation_time
                      checksum checksum_func_name min_ts max_ts uid]\<rparr>
        in Inr (if \<not> HasLastSequence e1 \<or> l_seqno > GetLastSequence e1
                then SetLastSequence l_seqno e1 else e1))"

definition GetNewFiles :: "('m, 'd) VersionEdit \<Rightarrow> (int \<times> FileMetaData) list" where
  "GetNewFiles e = new_files e"

definition GetNewTableFiles :: "('m, 'd) VersionEdit \<Rightarrow> FileMetaData list" where
  "GetNewTableFiles e = new_table_files e"

paragraph \<open>Guards and compaction cursors\<close>

definition AddGuard :: "int \<Rightarrow> string \<Rightarrow> ('m, 'd) VersionEdit \<Rightarrow> ('m, 'd) VersionEdit" where
  "AddGuard level guard e = e\<lparr>new_guard := finsert (level, guard) (new_guard e)\<rparr>"

definition DeleteGuard :: "int \<Rightarrow> string \<Rightarrow> ('m, 'd) VersionEdit \<Rightarrow> ('m, 'd) VersionEdit" where
  "DeleteGuard level guard e = e\<lparr>deleted_guard := finsert (level, guard) (deleted_guard e)\<rparr>"

definition GetNewGuards :: "('m, 'd) VersionEdit \<Rightarrow> (int \<times> string) fset" where
  "GetNewGuards e = new_guard e"

definition GetDeletedGuards :: "('m, 'd) VersionEdit \<Rightarrow> (int \<times> string) fset" where
  "GetDeletedGuards e = deleted_guard e"

definition GetCompactCursors :: "('m, 'd) VersionEdit \<Rightarrow> (int \<times> InternalKey) list" where
  "GetCompactCursors e = compact_cursors e"

definition AddCompactCursor ::
  "int \<Rightarrow> InternalKey \<Rightarrow> ('m, 'd) VersionEdit \<Rightarrow> ('m, 'd) VersionEdit" where
  "AddCompactCursor level cursor e = e\<lparr>compact_cursors := compact_cursors e @ [(level, cursor)]\<rparr>"

text \<open>
  The loop of \<open>SetCompactCursors\<close>, from index \<open>i\<close> with the cursors pushed so far.
  The source counts with an \<open>int\<close>; the vector is assumed to have fewer than
  \<open>2^31\<close> elements, so that the cast of its size changes nothing.
\<close>

function SetCompactCursors_loop ::
  "(InternalKey \<Rightarrow> bool) \<Rightarrow> InternalKey list \<Rightarrow> nat \<Rightarrow> (int \<times> InternalKey) list \<Rightarrow>
   (int \<times> InternalKey) list" where
  "SetCompactCursors_loop Valid v i acc =
     (if i < length v
      then SetCompactCursors_loop Valid v (Suc i)
             (if Valid (v ! i) then acc @ [(int i, v ! i)] else acc)
      else acc)"
  by pat_completeness auto
termination
  by (relation "measure (\<lambda>(Valid, v, i, acc). length v - i)") auto

declare SetCompactCursors_loop.simps [simp del]

definition SetCompactCursors ::
  "(InternalKey \<Rightarrow> bool) \<Rightarrow> InternalKey list \<Rightarrow> ('m, 'd) VersionEdit \<Rightarrow> ('m, 'd) VersionEdit" where
  "SetCompactCursors Valid compact_cursors_by_level e =
     e\<lparr>compact_cursors := SetCompactCursors_loop Valid compact_cursors_by_level 0 []\<rparr>"

paragraph \<open>Blob files\<close>

definition AddBlobFile5 ::
  "u64 \<Rightarrow> u64 \<Rightarrow> u64 \<Rightarrow> string \<Rightarrow> string \<Rightarrow> ('m, 'd) VersionEdit \<Rightarrow> ('m, 'd) VersionEdit" where
  "AddBlobFile5 blob_file_number total_blob_count total_blob_bytes checksum_method
     checksum_value e =
     e\<lparr>blob_file_additions := blob_file_additions e @
         [BlobFileAddition blob_file_number total_blob_count total_blob_bytes
            checksum_method checksum_value]\<rparr>"

definition AddBlobFile :: "BlobFileAddition \<Rightarrow> ('m, 'd) VersionEdit \<Rightarrow> ('m, 'd) VersionEdit" where
  "AddBlobFile a e = e\<lparr>blob_file_additions := blob_file_additions e @ [a]\<rparr>"

definition GetBlobFileAdditions :: "('m, 'd) VersionEdit \<Rightarrow> BlobFileAddition list" where
  "GetBlobFileAdditions e = blob_file_additions e"

definition SetBlobFileAdditions ::
  "BlobFileAddition list \<Rightarrow> ('m, 'd) VersionEdit \<Rightarrow> error + ('m, 'd) VersionEdit" where
  "SetBlobFileAdditions as e =
     (if blob_file_additions e \<noteq> [] then Inl AssertionFailure
      else Inr (e\<lparr>blob_file_additions := as\<rparr>))"

definition AddBlobFileGarbage3 ::
  "u64 \<Rightarrow> u64 \<Rightarrow> u64 \<Rightarrow> ('m, 'd) VersionEdit \<Rightarrow> ('m, 'd) VersionEdit" where
  "AddBlobFileGarbage3 blob_file_number garbage_blob_count garbage_blob_bytes e =
     e\<lparr>blob_file_garbages := blob_file_garbages e @
         [BlobFileGarbage blob_file_number garbage_blob_count garbage_blob_bytes]\<rparr>"

definition AddBlobFileGarbage ::
  "BlobFileGarbage \<Rightarrow> ('m, 'd) VersionEdit \<Rightarrow> ('m, 'd) VersionEdit" where
  "AddBlobFileGarbage g e = e\<lparr>blob_file_garbages := blob_file_garbages e @ [g]\<rparr>"

definition GetBlobFileGarbages :: "('m, 'd) VersionEdit \<Rightarrow> BlobFileGarbage list" where
  "GetBlobFileGarbages e = blob_file_garbages e"

definition SetBlobFileGarbages ::
  "BlobFileGarbage list \<Rightarrow> ('m, 'd) VersionEdit \<Rightarrow> error + ('m, 'd) VersionEdit" where
  "SetBlobFileGarbages gs e =
     (if blob_file_garbages e \<noteq> [] then Inl AssertionFailure
      else Inr (e\<lparr>blob_file_garbages := gs\<rparr>))"

paragraph \<open>Entries, WAL operations and column families\<close>

text \<open>
  \<open>NumEntries\<close>: the sizes of six members are added; the \<open>bool\<close>
  \<open>!wal_deletion_.IsEmpty()\<close> counts as 0 or 1.
\<close>

definition NumEntries :: "'d WalDeletionOps \<Rightarrow> ('m, 'd) VersionEdit \<Rightarrow> nat" where
  "NumEntries W e =
     length (new_files e) + fcard (deleted_files e) +
     length (blob_file_additions e) + length (blob_file_garbages e) +
     length (wal_additions e) + (if \<not> IsEmpty W (wal_deletion e) then 1 else 0)"

definition AddWal ::
  "'d WalDeletionOps \<Rightarrow> WalNumber \<Rightarrow> 'm \<Rightarrow> ('m, 'd) VersionEdit \<Rightarrow>
   error + ('m, 'd) VersionEdit" where
  "AddWal W number metadata e =
     (if \<not> NumEntries W e = length (wal_additions e) then Inl AssertionFailure
      else Inr (e\<lparr>wal_additions := wal_additions e @ [(number, metadata)]\<rparr>))"

definition GetWalAdditions :: "('m, 'd) VersionEdit \<Rightarrow> (WalNumber \<times> 'm) list" where
  "GetWalAdditions e = wal_additions e"

definition IsWalAddition :: "('m, 'd) VersionEdit \<Rightarrow> bool" where
  "IsWalAddition e = (wal_additions e \<noteq> [])"

definition DeleteWalsBefore ::
  "'d WalDeletionOps \<Rightarrow> WalNumber \<Rightarrow> ('m, 'd) VersionEdit \<Rightarrow> error + ('m, 'd) VersionEdit" where
  "DeleteWalsBefore W number e =
     (if \<not> ((NumEntries W e = 1) = (\<not> IsEmpty W (wal_deletion e))) then Inl AssertionFailure
      else Inr (e\<lparr>wal_deletion := WalDeletion1 W number\<rparr>))"

definition GetWalDeletion :: "('m, 'd) VersionEdit \<Rightarrow> 'd" where
  "GetWalDeletion e = wal_deletion e"

definition IsWalDeletion :: "'d WalDeletionOps \<Rightarrow> ('m, 'd) VersionEdit \<Rightarrow> bool" where
  "IsWalDeletion W e = (\<not> IsEmpty W (wal_deletion e))"

definition IsWalManipulation :: "'d WalDeletionOps \<Rightarrow> ('m, 'd) VersionEdit \<Rightarrow> bool" where
  "IsWalManipulation W e =
     (let entries = NumEntries W e
      in entries > 0 \<and>
         (entries = length (wal_additions e) \<or>
          entries = (if \<not> IsEmpty W (wal_deletion e) then 1 else 0)))"

definition SetColumnFamily :: "u32 \<Rightarrow> ('m, 'd) VersionEdit \<Rightarrow> ('m, 'd) VersionEdit" where
  "SetColumnFamily column_family_id e = e\<lparr>column_family := column_family_id\<rparr>"

definition AddColumnFamily ::
  "'d WalDeletionOps \<Rightarrow> string \<Rightarrow> ('m, 'd) VersionEdit \<Rightarrow> error + ('m, 'd) VersionEdit" where
  "AddColumnFamily W name e =
     (if is_column_family_drop e then Inl AssertionFailure
      else if is_column_family_add e then Inl AssertionFailure
      else if \<not> NumEntries W e = 0 then Inl AssertionFailure
      else Inr (e\<lparr>is_column_family_add := True, column_family_name := name\<rparr>))"

definition DropColumnFamily ::
  "'d WalDeletionOps \<Rightarrow> ('m, 'd) VersionEdit \<Rightarrow> error + ('m, 'd) VersionEdit" where
  "DropColumnFamily W e =
     (if is_column_family_drop e then Inl AssertionFailure
      else if is_column_family_add e then Inl AssertionFailure
      else if \<not> NumEntries W e = 0 then Inl AssertionFailure
      else Inr (e\<lparr>is_column_family_drop := True\<rparr>))"

definition IsColumnFamilyManipulation :: "('m, 'd) VersionEdit \<Rightarrow> bool" where
  "IsColumnFamilyManipulation e = (is_column_family_add e \<or> is_column_family_drop e)"

definition IsColumnFamilyAdd :: "('m, 'd) VersionEdit \<Rightarrow> bool" where
  "IsColumnFamilyAdd e = is_column_family_add e"

definition IsColumnFamilyDrop :: "('m, 'd) VersionEdit \<Rightarrow> bool" where
  "IsColumnFamilyDrop e = is_column_family_drop e"

definition MarkAtomicGroup :: "u32 \<Rightarrow> ('m, 'd) VersionEdit \<Rightarrow> ('m, 'd) VersionEdit" where
  "MarkAtomicGroup remaining e = e\<lparr>is_in_atomic_group := True, remaining_entries := remaining\<rparr>"

definition SetFullHistoryTsLow ::
  "string \<Rightarrow> ('m, 'd) VersionEdit \<Rightarrow> error + ('m, 'd) VersionEdit" where
  "SetFullHistoryTsLow ts e =
     (if ts = [] then Inl AssertionFailure else Inr (e\<lparr>full_history_ts_low := ts\<rparr>))"

subsection \<open>Sequences of calls\<close>

text \<open>
  One constructor for each mutating member function of \<open>VersionEdit\<close> that the header
  defines, with the arguments of that function. A sequence of calls on one edit stops
  at the first assertion that fails.
\<close>

datatype 'm call =
    Call_SetDBId string
  | Call_SetComparatorName string
  | Call_SetLogNumber u64
  | Call_SetPrevLogNumber u64
  | Call_SetNextFile u64
  | Call_SetMaxColumnFamily u32
  | Call_SetMinLogNumberToKeep u64
  | Call_SetLastSequence SequenceNumber
  | Call_DeleteFile int u64
  | Call_AddFile int FileMetaData
  | Call_AddFile18 int u64 u32 u64 InternalKey InternalKey SequenceNumber SequenceNumber
      bool Temperature u64 u64 u64 string string string string UniqueId64x2
  | Call_AddFile22 int u64 u32 "PositionKeyList list" u64 u64 "u32 \<rightharpoonup> u32" u64
      InternalKey InternalKey SequenceNumber SequenceNumber
      bool Temperature u64 u64 u64 string string string string UniqueId64x2
  | Call_AddTableFile FileMetaData
  | Call_AddTableFile18 u64 u32 u32 u64 InternalKey InternalKey SequenceNumber SequenceNumber
      bool Temperature u64 u64 u64 string string string string UniqueId64x2
  | Call_AddGuard int string
  | Call_DeleteGuard int string
  | Call_AddCompactCursor int InternalKey
  | Call_SetCompactCursors "InternalKey list"
  | Call_AddBlobFile5 u64 u64 u64 string string
  | Call_AddBlobFile BlobFileAddition
  | Call_SetBlobFileAdditions "BlobFileAddition list"
  | Call_AddBlobFileGarbage3 u64 u64 u64
  | Call_AddBlobFileGarbage BlobFileGarbage
  | Call_SetBlobFileGarbages "BlobFileGarbage list"
  | Call_AddWal WalNumber 'm
  | Call_DeleteWalsBefore WalNumber
  | Call_SetColumnFamily u32
  | Call_AddColumnFamily string
  | Call_DropColumnFamily
  | Call_MarkAtomicGroup u32
  | Call_SetFullHistoryTsLow string

fun apply_call ::
  "'d WalDeletionOps \<Rightarrow> (InternalKey \<Rightarrow> bool) \<Rightarrow> 'm call \<Rightarrow> ('m, 'd) VersionEdit \<Rightarrow>
   error + ('m, 'd) VersionEdit" where
  "apply_call W V (Call_SetDBId x) e = Inr (SetDBId x e)"
| "apply_call W V (Call_SetComparatorName x) e = Inr (SetComparatorName x e)"
| "apply_call W V (Call_SetLogNumber x) e = Inr (SetLogNumber x e)"
| "apply_call W V (Call_SetPrevLogNumber x) e = Inr (SetPrevLogNumber x e)"
| "apply_call W V (Call_SetNextFile x) e = Inr (SetNextFile x e)"
| "apply_call W V (Call_SetMaxColumnFamily x) e = Inr (SetMaxColumnFamily x e)"
| "apply_call W V (Call_SetMinLogNumberToKeep x) e = Inr (SetMinLogNumberToKeep x e)"
| "apply_call W V (Call_SetLastSequence x) e = Inr (SetLastSequence x e)"
| "apply_call W V (Call_DeleteFile level file) e = Inr (DeleteFile level file e)"
| "apply_call W V (Call_AddFile level f) e = AddFile level f e"
| "apply_call W V (Call_AddFile18 a1 a2 a3 a4 a5 a6 a7 a8 a9 a10 a11 a12 a13 a14 a15 a16 a17 a18) e =
     AddFile18 a1 a2 a3 a4 a5 a6 a7 a8 a9 a10 a11 a12 a13 a14 a15 a16 a17 a18 e"
| "apply_call W V (Call_AddFile22 a1 a2 a3 a4 a5 a6 a7 a8 a9 a10 a11 a12 a13 a14 a15 a16 a17 a18
      a19 a20 a21 a22) e =
     AddFile22 a1 a2 a3 a4 a5 a6 a7 a8 a9 a10 a11 a12 a13 a14 a15 a16 a17 a18 a19 a20 a21 a22 e"
| "apply_call W V (Call_AddTableFile f) e = AddTableFile f e"
| "apply_call W V (Call_AddTableFile18 a1 a2 a3 a4 a5 a6 a7 a8 a9 a10 a11 a12 a13 a14 a15 a16 a17
      a18) e =
     AddTableFile18 a1 a2 a3 a4 a5 a6 a7 a8 a9 a10 a11 a12 a13 a14 a15 a16 a17 a18 e"
| "apply_call W V (Call_AddGuard level g) e = Inr (AddGuard level g e)"
| "apply_call W V (Call_DeleteGuard level g) e = Inr (DeleteGuard level g e)"
| "apply_call W V (Call_AddCompactCursor level k) e = Inr (AddCompactCursor level k e)"
| "apply_call W V (Call_SetCompactCursors ks) e = Inr (SetCompactCursors V ks e)"
| "apply_call W V (Call_AddBlobFile5 a1 a2 a3 a4 a5) e = Inr (AddBlobFile5 a1 a2 a3 a4 a5 e)"
| "apply_call W V (Call_AddBlobFile a) e = Inr (AddBlobFile a e)"
| "apply_call W V (Call_SetBlobFileAdditions as) e = SetBlobFileAdditions as e"
| "apply_call W V (Call_AddBlobFileGarbage3 a1 a2 a3) e = Inr (AddBlobFileGarbage3 a1 a2 a3 e)"
| "apply_call W V (Call_AddBlobFileGarbage g) e = Inr (AddBlobFileGarbage g e)"
| "apply_call W V (Call_SetBlobFileGarbages gs) e = SetBlobFileGarbages gs e"
| "apply_call W V (Call_AddWal number metadata) e = AddWal W number metadata e"
| "apply_call W V (Call_DeleteWalsBefore number) e = DeleteWalsBefore W number e"
| "apply_call W V (Call_SetColumnFamily x) e = Inr (SetColumnFamily x e)"
| "apply_call W V (Call_AddColumnFamily name) e = AddColumnFamily W name e"
| "apply_call W V Call_DropColumnFamily e = DropColumnFamily W e"
| "apply_call W V (Call_MarkAtomicGroup x) e = Inr (MarkAtomicGroup x e)"
| "apply_call W V (Call_SetFullHistoryTsLow ts) e = SetFullHistoryTsLow ts e"

fun run_calls ::
  "'d WalDeletionOps \<Rightarrow> (InternalKey \<Rightarrow> bool) \<Rightarrow> 'm call list \<Rightarrow> ('m, 'd) VersionEdit \<Rightarrow>
   error + ('m, 'd) VersionEdit" where
  "run_calls W V [] e = Inr e"
| "run_calls W V (c # cs) e =
     (case apply_call W V c e of Inl err \<Rightarrow> Inl err | Inr e' \<Rightarrow> run_calls W V cs e')"

text \<open>
  The largest sequence number that a call hands to \<open>AddFile\<close> or \<open>AddTableFile\<close>, and
  the condition of the assertion of those calls.
\<close>

fun added_largest_seqno :: "'m call \<Rightarrow> SequenceNumber option" where
  "added_largest_seqno (Call_AddFile level f) = Some (largest_seqno (fd f))"
| "added_largest_seqno (Call_AddFile18 a1 a2 a3 a4 a5 a6 a7 a8 a9 a10 a11 a12 a13 a14 a15 a16
      a17 a18) = Some a8"
| "added_largest_seqno (Call_AddFile22 a1 a2 a3 a4 a5 a6 a7 a8 a9 a10 a11 a12 a13 a14 a15 a16
      a17 a18 a19 a20 a21 a22) = Some a12"
| "added_largest_seqno (Call_AddTableFile f) = Some (largest_seqno (fd f))"
| "added_largest_seqno (Call_AddTableFile18 a1 a2 a3 a4 a5 a6 a7 a8 a9 a10 a11 a12 a13 a14 a15
      a16 a17 a18) = Some a8"
| "added_largest_seqno _ = None"

fun added_smallest_seqno :: "'m call \<Rightarrow> SequenceNumber option" where
  "added_smallest_seqno (Call_AddFile level f) = Some (smallest_seqno (fd f))"
| "added_smallest_seqno (Call_AddFile18 a1 a2 a3 a4 a5 a6 a7 a8 a9 a10 a11 a12 a13 a14 a15 a16
      a17 a18) = Some a7"
| "added_smallest_seqno (Call_AddFile22 a1 a2 a3 a4 a5 a6 a7 a8 a9 a10 a11 a12 a13 a14 a15 a16
      a17 a18 a19 a20 a21 a22) = Some a11"
| "added_smallest_seqno (Call_AddTableFile f) = Some (smallest_seqno (fd f))"
| "added_smallest_seqno (Call_AddTableFile18 a1 a2 a3 a4 a5 a6 a7 a8 a9 a10 a11 a12 a13 a14 a15
      a16 a17 a18) = Some a7"
| "added_smallest_seqno _ = None"

definition is_add_call :: "'m call \<Rightarrow> bool" where
  "is_add_call c = (added_largest_seqno c \<noteq> None)"

definition add_call_ordered :: "'m call \<Rightarrow> bool" where
  "add_call_ordered c =
     (case (added_smallest_seqno c, added_largest_seqno c) of
        (Some s, Some l) \<Rightarrow> s \<le> l
      | _ \<Rightarrow> False)"

fun is_SetLastSequence :: "'m call \<Rightarrow> bool" where
  "is_SetLastSequence (Call_SetLastSequence x) = True"
| "is_SetLastSequence _ = False"

subsection \<open>Predicates of the properties\<close>

text \<open>The order of the two sequence numbers of a file, and of all files added to an edit.\<close>

definition seqno_ordered :: "FileMetaData \<Rightarrow> bool" where
  "seqno_ordered f = (smallest_seqno (fd f) \<le> largest_seqno (fd f))"

definition files_ordered :: "('m, 'd) VersionEdit \<Rightarrow> bool" where
  "files_ordered e =
     ((\<forall>p \<in> set (new_files e). seqno_ordered (snd p)) \<and>
      (\<forall>f \<in> set (new_table_files e). seqno_ordered f))"

text \<open>
  A list of ranges \<open>(start, end, seqno)\<close> handed to \<open>UpdateBoundariesForRange\<close> one
  after the other, with the same comparator.
\<close>

fun UpdateBoundariesForRanges ::
  "InternalKeyComparator \<Rightarrow> (InternalKey \<times> InternalKey \<times> SequenceNumber) list \<Rightarrow>
   FileMetaData \<Rightarrow> FileMetaData" where
  "UpdateBoundariesForRanges icmp [] f = f"
| "UpdateBoundariesForRanges icmp ((start, end_key, seqno) # rs) f =
     UpdateBoundariesForRanges icmp rs (UpdateBoundariesForRange start end_key seqno icmp f)"

text \<open>
  What the specification asks of the comparator: a total order on internal keys, given
  as a three-way comparison.
\<close>

definition total_order_comparator :: "InternalKeyComparator \<Rightarrow> bool" where
  "total_order_comparator icmp =
     ((\<forall>a b. icmp a b = 0 \<longleftrightarrow> a = b) \<and>
      (\<forall>a b. icmp a b < 0 \<longleftrightarrow> 0 < icmp b a) \<and>
      (\<forall>a b c. icmp a b < 0 \<and> icmp b c < 0 \<longrightarrow> icmp a c < 0))"

definition range_keys_nonempty :: "(InternalKey \<times> InternalKey \<times> SequenceNumber) \<Rightarrow> bool" where
  "range_keys_nonempty r = (case r of (start, end_key, seqno) \<Rightarrow>
     size_key start \<noteq> 0 \<and> size_key end_key \<noteq> 0)"

subsection \<open>Parameters used in the examples\<close>

text \<open>
  An implementation of the \<open>WalDeletion\<close> interface for the closed examples: the
  record is the WAL number itself, and the number 0 stands for no deletion.
\<close>

definition WalDeletion_number :: "WalNumber WalDeletionOps" where
  "WalDeletion_number = \<lparr> WalDeletion0 = 0, WalDeletion1 = (\<lambda>number. number),
                           IsEmpty = (\<lambda>d. d = 0) \<rparr>"

text \<open>
  Modelled from the spec: \<open>InternalKey::Valid\<close> is defined in db/dbformat.h, which is
  not among the sources. The specification calls a cursor valid when its key is
  non-empty.
\<close>

definition Valid_nonempty :: "InternalKey \<Rightarrow> bool" where
  "Valid_nonempty k = (size_key k \<noteq> 0)"

text \<open>
  A comparator for the closed examples: the bytes of the two keys are compared from the
  left, and a proper prefix comes first.
\<close>

fun compare_bytes :: "nat list \<Rightarrow> nat list \<Rightarrow> int" where
  "compare_bytes [] [] = 0"
| "compare_bytes [] (y # ys) = - 1"
| "compare_bytes (x # xs) [] = 1"
| "compare_bytes (x # xs) (y # ys) =
     (if x < y then - 1 else if y < x then 1 else compare_bytes xs ys)"

definition bytewise_icmp :: InternalKeyComparator where
  "bytewise_icmp a b = compare_bytes (map of_char (rep a)) (map of_char (rep b))"

section \<open>Properties\<close>

subsection \<open>The tag space\<close>

lemmas tag_lists =
  mandatory_tags_def core_tags_def new_file_format_tags_def column_family_tags_def
  blob_tags_def forward_compatible_tags_def unignorable_custom_tags_def
  skippable_custom_tags_def

text \<open>
  Claim C6. Every mandatory tag (the core tags 1 to 10, the new-file formats 100 to 103,
  the column-family tags 200 to 203, the atomic-group tag 300, the blob tags 400 and
  401) has a value strictly below \<open>kTagSafeIgnoreMask = 1 << 13 = 8192\<close>; every
  forward-compatible tag has a value of at least 8192; inside a new-file record the
  unignorable custom tag \<open>kPathId\<close> is at least
  \<open>kCustomTagNonSafeIgnoreMask = 1 << 6 = 64\<close> and every other known custom tag is
  below 64. The lists cover both enumerations, the two masks apart.
\<close>

theorem tag_space_partition:
  "(\<forall>t \<in> set mandatory_tags. Tag_value t < Tag_value kTagSafeIgnoreMask) \<and>
   (\<forall>t \<in> set forward_compatible_tags. Tag_value kTagSafeIgnoreMask \<le> Tag_value t) \<and>
   Tag_value kTagSafeIgnoreMask = 8192 \<and>
   Tag_value ` set core_tags \<subseteq> {1..10} \<and>
   Tag_value ` set new_file_format_tags \<subseteq> {100..103} \<and>
   Tag_value ` set column_family_tags = {200, 201, 202, 203} \<and>
   Tag_value kInAtomicGroup = 300 \<and>
   Tag_value ` set blob_tags = {400, 401} \<and>
   (\<forall>c \<in> set unignorable_custom_tags.
      NewFileCustomTag_value kCustomTagNonSafeIgnoreMask \<le> NewFileCustomTag_value c) \<and>
   (\<forall>c \<in> set skippable_custom_tags.
      NewFileCustomTag_value c < NewFileCustomTag_value kCustomTagNonSafeIgnoreMask) \<and>
   NewFileCustomTag_value kCustomTagNonSafeIgnoreMask = 64 \<and>
   set mandatory_tags \<union> set forward_compatible_tags \<union> {kTagSafeIgnoreMask} = UNIV \<and>
   set unignorable_custom_tags \<union> set skippable_custom_tags \<union>
     {kCustomTagNonSafeIgnoreMask} = UNIV"
proof -
  have below: "\<forall>t \<in> set mandatory_tags. Tag_value t < Tag_value kTagSafeIgnoreMask"
    by (simp add: tag_lists)
  have above: "\<forall>t \<in> set forward_compatible_tags. Tag_value kTagSafeIgnoreMask \<le> Tag_value t"
    by (simp add: tag_lists)
  have core: "Tag_value ` set core_tags \<subseteq> {1..10}"
    by (simp add: tag_lists)
  have formats: "Tag_value ` set new_file_format_tags \<subseteq> {100..103}"
    by (simp add: tag_lists)
  have families: "Tag_value ` set column_family_tags = {200, 201, 202, 203}"
    by (simp add: tag_lists)
  have blobs: "Tag_value ` set blob_tags = {400, 401}"
    by (simp add: tag_lists)
  have custom_above: "\<forall>c \<in> set unignorable_custom_tags.
      NewFileCustomTag_value kCustomTagNonSafeIgnoreMask \<le> NewFileCustomTag_value c"
    by (simp add: tag_lists)
  have custom_below: "\<forall>c \<in> set skippable_custom_tags.
      NewFileCustomTag_value c < NewFileCustomTag_value kCustomTagNonSafeIgnoreMask"
    by (simp add: tag_lists)
  have all_tags:
    "set mandatory_tags \<union> set forward_compatible_tags \<union> {kTagSafeIgnoreMask} = UNIV"
  proof -
    have "t \<in> set mandatory_tags \<union> set forward_compatible_tags \<union> {kTagSafeIgnoreMask}" for t
      by (cases t) (simp_all add: tag_lists)
    then show ?thesis by blast
  qed
  have all_custom:
    "set unignorable_custom_tags \<union> set skippable_custom_tags \<union>
       {kCustomTagNonSafeIgnoreMask} = UNIV"
  proof -
    have "c \<in> set unignorable_custom_tags \<union> set skippable_custom_tags \<union>
            {kCustomTagNonSafeIgnoreMask}" for c
      by (cases c) (simp_all add: tag_lists)
    then show ?thesis by blast
  qed
  show ?thesis
    using below above core formats families blobs custom_above custom_below all_tags all_custom
    by simp
qed

theorem tag_space_partition_witness:
  "kNewFile4 \<in> set mandatory_tags \<and> Tag_value kNewFile4 < Tag_value kTagSafeIgnoreMask \<and>
   kWalDeletion2 \<in> set forward_compatible_tags \<and>
   Tag_value kTagSafeIgnoreMask \<le> Tag_value kWalDeletion2 \<and>
   Tag_value kWalDeletion2 = 8200 \<and>
   kPathId \<in> set unignorable_custom_tags \<and> NewFileCustomTag_value kPathId = 65 \<and>
   NewFileCustomTag_value kCustomTagNonSafeIgnoreMask \<le> NewFileCustomTag_value kPathId \<and>
   kUniqueId \<in> set skippable_custom_tags \<and>
   NewFileCustomTag_value kUniqueId < NewFileCustomTag_value kCustomTagNonSafeIgnoreMask"
proof -
  have m: "kNewFile4 \<in> set mandatory_tags" by (simp add: tag_lists)
  have f: "kWalDeletion2 \<in> set forward_compatible_tags" by (simp add: tag_lists)
  have u: "kPathId \<in> set unignorable_custom_tags" by (simp add: tag_lists)
  have s: "kUniqueId \<in> set skippable_custom_tags" by (simp add: tag_lists)
  from tag_space_partition m f u s show ?thesis by simp
qed

subsection \<open>Packing a file number with a path id\<close>

lemma kFileNumberMask_eq_mask: "kFileNumberMask = mask 60"
  by (simp add: kFileNumberMask_def mask_eq_exp_minus_1)

lemma kFileNumberMask_succ: "kFileNumberMask + 1 = 2 ^ 60"
  by (simp add: kFileNumberMask_def)

lemma number_fits: "take_bit 60 number = number" if "number \<le> kFileNumberMask"
  for number :: u64
proof -
  from that have "number < 2 ^ 60"
    by (simp add: kFileNumberMask_def) unat_arith
  then show ?thesis
    by (simp add: take_bit_eq_mask less_mask_eq)
qed

lemma path_id_fits: "take_bit 4 path_id = path_id" if "path_id < 16" for path_id :: u32
proof -
  from that have "path_id < 2 ^ 4" by simp
  then show ?thesis
    by (simp only: take_bit_eq_mask less_mask_eq)
qed

lemma unpack_number:
  "PackFileNumberAndPathId number (ucast path_id) AND kFileNumberMask = number"
  if "number \<le> kFileNumberMask" for path_id :: u32
proof -
  have "(number OR push_bit 60 (ucast path_id :: u64)) AND mask 60 = take_bit 60 number"
    by (rule bit_word_eqI) (auto simp: bit_simps)
  with number_fits [OF that] show ?thesis
    by (simp add: PackFileNumberAndPathId_def kFileNumberMask_eq_mask)
qed

lemma unpack_path_id:
  "ucast (PackFileNumberAndPathId number (ucast path_id) div (kFileNumberMask + 1)) = path_id"
  if "number \<le> kFileNumberMask" and "path_id < 16" for path_id :: u32
proof -
  have n: "take_bit 60 number = number"
    by (rule number_fits) fact
  have p: "take_bit 4 path_id = path_id"
    by (rule path_id_fits) fact
  have "(ucast (drop_bit 60 (take_bit 60 number OR
            push_bit 60 (ucast (take_bit 4 path_id) :: u64))) :: u32) = take_bit 4 path_id"
    by (rule bit_word_eqI) (auto simp: bit_simps)
  then show ?thesis
    by (simp add: PackFileNumberAndPathId_def kFileNumberMask_succ n p drop_bit_eq_div)
qed

text \<open>
  Claim C7, as amended. For every number of at most 60 significant bits and every path
  id below 16 (so that \<open>pathId << 60\<close> loses no bit in 64 bits), a descriptor
  constructed from the two gives the number back with \<open>GetNumber\<close> and the path id
  with \<open>GetPathId\<close>. All constructors delegate to the one with eight arguments. The
  three functions are total.
\<close>

theorem file_identity_roundtrip:
  fixes number :: u64 and path_id :: u32
  assumes "number \<le> kFileNumberMask" and "path_id < 16"
  shows "GetNumber (FileDescriptor8 number path_id sub_map father_map fsize sub_fsize s l) = number \<and>
         GetPathId (FileDescriptor8 number path_id sub_map father_map fsize sub_fsize s l) = path_id"
  using unpack_number [OF assms(1), of path_id] unpack_path_id [OF assms]
  by (simp add: GetNumber_def GetPathId_def FileDescriptor8_def)

theorem file_identity_roundtrip_witness:
  "(1000 :: u64) \<le> kFileNumberMask \<and> (3 :: u32) < 16 \<and>
   GetNumber (FileDescriptor8 1000 3 Map.empty Map.empty 4096 0 5 9) = 1000 \<and>
   GetPathId (FileDescriptor8 1000 3 Map.empty Map.empty 4096 0 5 9) = 3"
proof -
  have n: "(1000 :: u64) \<le> kFileNumberMask" by (simp add: kFileNumberMask_def)
  have p: "(3 :: u32) < 16" by simp
  from file_identity_roundtrip [OF n p] n p show ?thesis by simp
qed

text \<open>
  The claim as stated, for every path id, fails: the path id 16 is shifted out of the
  64 bits and reads back as 0.
\<close>

theorem file_identity_path_id_counterexample:
  "(1 :: u64) \<le> kFileNumberMask \<and> GetPathId (FileDescriptor5 1 16 0 0 0) = 0 \<and>
   GetPathId (FileDescriptor5 1 16 0 0 0) \<noteq> 16"
  by (simp add: GetPathId_def FileDescriptor5_def FileDescriptor8_def
      PackFileNumberAndPathId_def kFileNumberMask_def)

subsection \<open>The last sequence number of an edit\<close>

lemma FileMetaData24_seqnos [simp]:
  "smallest_seqno (fd (FileMetaData24 a1 a2 a3 a4 a5 a6 a7 a8 a9 a10 a11 a12 s l a15 a16 a17 a18 a19 a20 a21 a22 a23 a24)) = s"
  "largest_seqno (fd (FileMetaData24 a1 a2 a3 a4 a5 a6 a7 a8 a9 a10 a11 a12 s l a15 a16 a17 a18 a19 a20 a21 a22 a23 a24)) = l"
  by (simp_all add: FileMetaData24_def FileDescriptor8_def)

lemma FileMetaData17_seqnos [simp]:
  "smallest_seqno (fd (FileMetaData17 a1 a2 a3 a4 a5 s l a8 a9 a10 a11 a12 a13 a14 a15 a16 a17)) = s"
  "largest_seqno (fd (FileMetaData17 a1 a2 a3 a4 a5 s l a8 a9 a10 a11 a12 a13 a14 a15 a16 a17)) = l"
  by (simp_all add: FileMetaData17_def)

lemma AddFile18_AddFile:
  "AddFile18 level a1 a2 a3 a4 a5 s l a8 a9 a10 a11 a12 a13 a14 a15 a16 a17 e =
   AddFile level (FileMetaData17 a1 a2 a3 a4 a5 s l a8 a9 a10 a11 a12 a13 a14 a15 a16 a17) e"
  by (simp add: AddFile18_def AddFile_def Let_def)

lemma AddFile22_AddFile:
  "AddFile22 level file pid cr te me sm fs sk lk s l a13 a14 a15 a16 a17 a18 a19 a20 a21 a22 e =
   AddFile level (FileMetaData24 file pid cr te te me sm Map.empty fs 0 sk lk s l a13 a14 a15 a16 a17 a18 a19 a20 a21 a22) e"
  by (simp add: AddFile22_def AddFile_def Let_def)

lemma AddTableFile18_AddTableFile:
  "AddTableFile18 file pid te fs sk lk s l a13 a14 a15 a16 a17 a18 a19 a20 a21 a22 e =
   AddTableFile (FileMetaData24 file pid [] (ucast te) 0 0 Map.empty Map.empty fs 0 sk lk s l a13 a14 a15 a16 a17 a18 a19 a20 a21 a22) e"
  by (simp add: AddTableFile18_def AddTableFile_def Let_def)

lemmas add_overloads = AddFile18_AddFile AddFile22_AddFile AddTableFile18_AddTableFile

lemma AddFile_last_sequence:
  assumes "AddFile level f e = Inr e'"
  shows "has_last_sequence e' \<and>
         last_sequence e' = (if \<not> has_last_sequence e \<or> largest_seqno (fd f) > last_sequence e
                             then largest_seqno (fd f) else last_sequence e)"
  using assms
  by (auto simp: AddFile_def HasLastSequence_def GetLastSequence_def SetLastSequence_def Let_def
      split: if_splits)

lemma AddTableFile_last_sequence:
  assumes "AddTableFile f e = Inr e'"
  shows "has_last_sequence e' \<and>
         last_sequence e' = (if \<not> has_last_sequence e \<or> largest_seqno (fd f) > last_sequence e
                             then largest_seqno (fd f) else last_sequence e)"
  using assms
  by (auto simp: AddTableFile_def HasLastSequence_def GetLastSequence_def SetLastSequence_def Let_def
      split: if_splits)

lemmas plain_setters =
  SetDBId_def SetComparatorName_def SetLogNumber_def SetPrevLogNumber_def SetNextFile_def
  SetMaxColumnFamily_def SetMinLogNumberToKeep_def DeleteFile_def AddGuard_def DeleteGuard_def
  AddCompactCursor_def SetCompactCursors_def AddBlobFile5_def AddBlobFile_def
  AddBlobFileGarbage3_def AddBlobFileGarbage_def SetColumnFamily_def MarkAtomicGroup_def

lemmas asserting_setters =
  SetBlobFileAdditions_def SetBlobFileGarbages_def AddWal_def DeleteWalsBefore_def
  AddColumnFamily_def DropColumnFamily_def SetFullHistoryTsLow_def

lemma apply_call_add:
  assumes "added_largest_seqno c = Some s" and  "apply_call W V c e = Inr e'"
  shows "has_last_sequence e' \<and>
         last_sequence e' = (if \<not> has_last_sequence e \<or> s > last_sequence e then s else last_sequence e)"
  using assms
  by (cases c) (auto simp: add_overloads dest: AddFile_last_sequence AddTableFile_last_sequence)


lemma plain_setters_last_sequence [simp]:
  "has_last_sequence (SetDBId x1 e) = has_last_sequence e"
  "has_last_sequence (SetComparatorName x1 e) = has_last_sequence e"
  "has_last_sequence (SetLogNumber x2 e) = has_last_sequence e"
  "has_last_sequence (SetPrevLogNumber x2 e) = has_last_sequence e"
  "has_last_sequence (SetNextFile x2 e) = has_last_sequence e"
  "has_last_sequence (SetMaxColumnFamily x3 e) = has_last_sequence e"
  "has_last_sequence (SetMinLogNumberToKeep x2 e) = has_last_sequence e"
  "has_last_sequence (DeleteFile l x2 e) = has_last_sequence e"
  "has_last_sequence (AddGuard l x1 e) = has_last_sequence e"
  "has_last_sequence (DeleteGuard l x1 e) = has_last_sequence e"
  "has_last_sequence (AddCompactCursor l k e) = has_last_sequence e"
  "has_last_sequence (SetCompactCursors V ks e) = has_last_sequence e"
  "has_last_sequence (AddBlobFile5 b1 b2 b3 b4 b5 e) = has_last_sequence e"
  "has_last_sequence (AddBlobFile a e) = has_last_sequence e"
  "has_last_sequence (AddBlobFileGarbage3 b1 b2 b3 e) = has_last_sequence e"
  "has_last_sequence (AddBlobFileGarbage g e) = has_last_sequence e"
  "has_last_sequence (SetColumnFamily x3 e) = has_last_sequence e"
  "has_last_sequence (MarkAtomicGroup x3 e) = has_last_sequence e"
  "last_sequence (SetDBId x1 e) = last_sequence e"
  "last_sequence (SetComparatorName x1 e) = last_sequence e"
  "last_sequence (SetLogNumber x2 e) = last_sequence e"
  "last_sequence (SetPrevLogNumber x2 e) = last_sequence e"
  "last_sequence (SetNextFile x2 e) = last_sequence e"
  "last_sequence (SetMaxColumnFamily x3 e) = last_sequence e"
  "last_sequence (SetMinLogNumberToKeep x2 e) = last_sequence e"
  "last_sequence (DeleteFile l x2 e) = last_sequence e"
  "last_sequence (AddGuard l x1 e) = last_sequence e"
  "last_sequence (DeleteGuard l x1 e) = last_sequence e"
  "last_sequence (AddCompactCursor l k e) = last_sequence e"
  "last_sequence (SetCompactCursors V ks e) = last_sequence e"
  "last_sequence (AddBlobFile5 b1 b2 b3 b4 b5 e) = last_sequence e"
  "last_sequence (AddBlobFile a e) = last_sequence e"
  "last_sequence (AddBlobFileGarbage3 b1 b2 b3 e) = last_sequence e"
  "last_sequence (AddBlobFileGarbage g e) = last_sequence e"
  "last_sequence (SetColumnFamily x3 e) = last_sequence e"
  "last_sequence (MarkAtomicGroup x3 e) = last_sequence e"
  by (simp_all add: plain_setters)

lemma asserting_setters_last_sequence:
  "SetBlobFileAdditions as e = Inr e' \<Longrightarrow>
     has_last_sequence e' = has_last_sequence e \<and> last_sequence e' = last_sequence e"
  "SetBlobFileGarbages gs e = Inr e' \<Longrightarrow>
     has_last_sequence e' = has_last_sequence e \<and> last_sequence e' = last_sequence e"
  "AddWal W n m e = Inr e' \<Longrightarrow>
     has_last_sequence e' = has_last_sequence e \<and> last_sequence e' = last_sequence e"
  "DeleteWalsBefore W n e = Inr e' \<Longrightarrow>
     has_last_sequence e' = has_last_sequence e \<and> last_sequence e' = last_sequence e"
  "AddColumnFamily W name e = Inr e' \<Longrightarrow>
     has_last_sequence e' = has_last_sequence e \<and> last_sequence e' = last_sequence e"
  "DropColumnFamily W e = Inr e' \<Longrightarrow>
     has_last_sequence e' = has_last_sequence e \<and> last_sequence e' = last_sequence e"
  "SetFullHistoryTsLow ts e = Inr e' \<Longrightarrow>
     has_last_sequence e' = has_last_sequence e \<and> last_sequence e' = last_sequence e"
  by (auto simp: asserting_setters split: if_splits)

lemma apply_call_other:
  assumes "added_largest_seqno c = None" and "\<not> is_SetLastSequence c" and  "apply_call W V c e = Inr e'"
  shows "has_last_sequence e' = has_last_sequence e \<and> last_sequence e' = last_sequence e"
  using assms
  by (cases c) (auto dest: asserting_setters_last_sequence)

lemma run_calls_set_last_sequence:
  assumes "run_calls W V cs e0 = Inr e" and "\<forall>c \<in> set cs. \<not> is_SetLastSequence c"
    and "has_last_sequence e0"
  shows "has_last_sequence e \<and>
         last_sequence e = fold max (List.map_filter added_largest_seqno cs) (last_sequence e0)"
  using assms
proof (induction cs arbitrary: e0)
  case Nil
  then show ?case by (simp add: List.map_filter_simps)
next
  case (Cons c cs)
  from Cons.prems(1) obtain e1 where step: "apply_call W V c e0 = Inr e1"
    and rest: "run_calls W V cs e1 = Inr e"
    by (auto split: sum.splits)
  show ?case
  proof (cases "added_largest_seqno c")
    case None
    with step Cons.prems have "has_last_sequence e1" "last_sequence e1 = last_sequence e0"
      using apply_call_other [OF None _ step] by simp_all
    with Cons.IH [OF rest] Cons.prems None show ?thesis
      by (simp add: List.map_filter_simps)
  next
    case (Some s)
    from apply_call_add [OF Some step] Cons.prems(3)
    have "has_last_sequence e1" "last_sequence e1 = max s (last_sequence e0)"
      by (auto simp: max_def)
    with Cons.IH [OF rest] Cons.prems Some show ?thesis
      by (simp add: List.map_filter_simps)
  qed
qed

lemma run_calls_first_last_sequence:
  assumes "run_calls W V cs e0 = Inr e" and "\<forall>c \<in> set cs. \<not> is_SetLastSequence c"
    and "\<not> has_last_sequence e0" and "List.map_filter added_largest_seqno cs \<noteq> []"
  shows "has_last_sequence e \<and>
         last_sequence e = Max (set (List.map_filter added_largest_seqno cs))"
  using assms
proof (induction cs arbitrary: e0)
  case Nil
  then show ?case by (simp add: List.map_filter_simps)
next
  case (Cons c cs)
  from Cons.prems(1) obtain e1 where step: "apply_call W V c e0 = Inr e1"
    and rest: "run_calls W V cs e1 = Inr e"
    by (auto split: sum.splits)
  show ?case
  proof (cases "added_largest_seqno c")
    case None
    with step Cons.prems have "\<not> has_last_sequence e1"
      using apply_call_other [OF None _ step] by simp
    with Cons.IH [OF rest] Cons.prems None show ?thesis
      by (simp add: List.map_filter_simps)
  next
    case (Some s)
    from apply_call_add [OF Some step] Cons.prems(3)
    have e1: "has_last_sequence e1" "last_sequence e1 = s"
      by auto
    from Cons.prems(2) have "\<forall>c \<in> set cs. \<not> is_SetLastSequence c" by simp
    from run_calls_set_last_sequence [OF rest this e1(1)] e1(2)
    have "has_last_sequence e"
      and "last_sequence e = fold max (List.map_filter added_largest_seqno cs) s"
      by simp_all
    moreover have "fold max (List.map_filter added_largest_seqno cs) s =
        Max (set (s # List.map_filter added_largest_seqno cs))"
      by (simp only: Max.set_eq_fold)
    moreover have "List.map_filter added_largest_seqno (c # cs) =
        s # List.map_filter added_largest_seqno cs"
      using Some by (simp add: List.map_filter_simps)
    ultimately show ?thesis by simp
  qed
qed

lemma apply_call_add_succeeds:
  assumes "is_add_call c" and "add_call_ordered c"
  shows "\<exists>e'. apply_call W V c e = Inr e'"
  using assms
  by (cases c) (simp_all add: is_add_call_def add_call_ordered_def add_overloads AddFile_def AddTableFile_def Let_def)

lemma run_calls_add_succeeds:
  assumes "\<forall>c \<in> set cs. is_add_call c \<and> add_call_ordered c"
  shows "\<exists>e'. run_calls W V cs e = Inr e'"
  using assms
proof (induction cs arbitrary: e)
  case Nil
  then show ?case by simp
next
  case (Cons c cs)
  then obtain e1 where "apply_call W V c e = Inr e1"
    using apply_call_add_succeeds [of c W V e] by auto
  with Cons show ?case by simp
qed

text \<open>
  Claim C2. Take an edit whose last sequence number was never set and a sequence of
  calls without \<open>SetLastSequence\<close> that contains at least one call of \<open>AddFile\<close> or
  \<open>AddTableFile\<close> (any overload). If the sequence runs through, \<open>HasLastSequence()\<close>
  is true afterwards and \<open>GetLastSequence()\<close> is the maximum of the largest
  sequence numbers handed to those calls. A sequence that consists of such calls only,
  each with its smallest sequence number at most its largest, does run through. A single
  such call sets the last sequence number to its largest sequence number when none was
  set or when it exceeds the current one, and leaves it as it is otherwise.
\<close>

theorem last_sequence_is_max_of_added:
  fixes e0 :: "('m, 'd) VersionEdit"
  assumes "\<not> HasLastSequence e0"
    and "\<forall>c \<in> set cs. \<not> is_SetLastSequence c"
    and "\<exists>c \<in> set cs. is_add_call c"
  shows "(\<forall>e. run_calls W V cs e0 = Inr e \<longrightarrow>
            HasLastSequence e \<and>
            GetLastSequence e = Max (set (List.map_filter added_largest_seqno cs))) \<and>
         ((\<forall>c \<in> set cs. is_add_call c \<and> add_call_ordered c) \<longrightarrow>
            (\<exists>e. run_calls W V cs e0 = Inr e)) \<and>
         (\<forall>c s (e1 :: ('m, 'd) VersionEdit) e2.
            added_largest_seqno c = Some s \<and> apply_call W V c e1 = Inr e2 \<longrightarrow>
            HasLastSequence e2 \<and>
            GetLastSequence e2 =
              (if \<not> HasLastSequence e1 \<or> s > GetLastSequence e1 then s else GetLastSequence e1))"
proof -
  from assms(3) have ne: "List.map_filter added_largest_seqno cs \<noteq> []"
    by (auto simp: is_add_call_def map_filter_def filter_empty_conv)
  have a: "HasLastSequence e \<and>
           GetLastSequence e = Max (set (List.map_filter added_largest_seqno cs))"
    if "run_calls W V cs e0 = Inr e" for e
    using run_calls_first_last_sequence [OF that assms(2) _ ne] assms(1)
    by (simp add: HasLastSequence_def GetLastSequence_def)
  have b: "\<exists>e. run_calls W V cs e0 = Inr e"
    if "\<forall>c \<in> set cs. is_add_call c \<and> add_call_ordered c"
    using that by (rule run_calls_add_succeeds)
  have c: "HasLastSequence e2 \<and>
           GetLastSequence e2 =
             (if \<not> HasLastSequence e1 \<or> s > GetLastSequence e1 then s else GetLastSequence e1)"
    if "added_largest_seqno c = Some s" and "apply_call W V c e1 = Inr e2"
    for c s and e1 e2 :: "('m, 'd) VersionEdit"
    using apply_call_add [OF that] by (simp add: HasLastSequence_def GetLastSequence_def)
  from a b c show ?thesis by blast
qed

theorem last_sequence_is_max_of_added_witness:
  "\<not> HasLastSequence (VersionEdit0 WalDeletion_number :: (unit, WalNumber) VersionEdit) \<and>
   (\<exists>e. run_calls WalDeletion_number Valid_nonempty
          [Call_AddFile18 0 11 0 4096 (InternalKey ''a'') (InternalKey ''c'') 3 7 False 0 0 0 0 [] [] [] [] (0, 0),
           Call_AddGuard 1 ''b'',
           Call_AddTableFile18 12 0 100 4096 (InternalKey ''a'') (InternalKey ''c'') 2 9 False 0 0 0 0 [] [] [] [] (0, 0),
           Call_AddFile18 1 13 0 4096 (InternalKey ''d'') (InternalKey ''f'') 1 5 False 0 0 0 0 [] [] [] [] (0, 0)]
          (VersionEdit0 WalDeletion_number :: (unit, WalNumber) VersionEdit) = Inr e \<and>
        HasLastSequence e \<and> GetLastSequence e = 9)"
proof -
  let ?e0 = "VersionEdit0 WalDeletion_number :: (unit, WalNumber) VersionEdit"
  let ?cs = "[Call_AddFile18 0 11 0 4096 (InternalKey ''a'') (InternalKey ''c'') 3 7 False 0 0 0 0 [] [] [] [] (0, 0),
           Call_AddGuard 1 ''b'',
           Call_AddTableFile18 12 0 100 4096 (InternalKey ''a'') (InternalKey ''c'') 2 9 False 0 0 0 0 [] [] [] [] (0, 0),
           Call_AddFile18 1 13 0 4096 (InternalKey ''d'') (InternalKey ''f'') 1 5 False 0 0 0 0 [] [] [] [] (0, 0)] :: unit call list"
  have h1: "\<not> HasLastSequence ?e0"
    by (simp add: HasLastSequence_def VersionEdit0_def)
  have h2: "\<forall>c \<in> set ?cs. \<not> is_SetLastSequence c" by simp
  have h3: "\<exists>c \<in> set ?cs. is_add_call c" by (simp add: is_add_call_def)
  have run: "\<exists>e. run_calls WalDeletion_number Valid_nonempty ?cs ?e0 = Inr e"
    by (simp add: add_overloads AddFile_def AddTableFile_def AddGuard_def Let_def)
  have m: "Max (set (List.map_filter added_largest_seqno ?cs)) = 9"
    by (simp add: List.map_filter_simps)
  from last_sequence_is_max_of_added [OF h1 h2 h3, of WalDeletion_number Valid_nonempty] run m h1
  show ?thesis by auto
qed

subsection \<open>The order of the sequence numbers of a file\<close>

lemma AddFile_result:
  "AddFile level f e = Inr e' \<Longrightarrow>
     seqno_ordered f \<and> new_files e' = new_files e @ [(level, f)] \<and>
     new_table_files e' = new_table_files e"
  by (auto simp: AddFile_def SetLastSequence_def seqno_ordered_def Let_def split: if_splits)

lemma AddTableFile_result:
  "AddTableFile f e = Inr e' \<Longrightarrow>
     seqno_ordered f \<and> new_table_files e' = new_table_files e @ [f] \<and>
     new_files e' = new_files e"
  by (auto simp: AddTableFile_def SetLastSequence_def seqno_ordered_def Let_def split: if_splits)

lemma plain_setters_files [simp]:
  "new_files (SetDBId x1 e) = new_files e"
  "new_files (SetComparatorName x1 e) = new_files e"
  "new_files (SetLogNumber x2 e) = new_files e"
  "new_files (SetPrevLogNumber x2 e) = new_files e"
  "new_files (SetNextFile x2 e) = new_files e"
  "new_files (SetMaxColumnFamily x3 e) = new_files e"
  "new_files (SetMinLogNumberToKeep x2 e) = new_files e"
  "new_files (SetLastSequence x2 e) = new_files e"
  "new_files (DeleteFile l x2 e) = new_files e"
  "new_files (AddGuard l x1 e) = new_files e"
  "new_files (DeleteGuard l x1 e) = new_files e"
  "new_files (AddCompactCursor l k e) = new_files e"
  "new_files (SetCompactCursors V ks e) = new_files e"
  "new_files (AddBlobFile5 b1 b2 b3 b4 b5 e) = new_files e"
  "new_files (AddBlobFile a e) = new_files e"
  "new_files (AddBlobFileGarbage3 b1 b2 b3 e) = new_files e"
  "new_files (AddBlobFileGarbage g e) = new_files e"
  "new_files (SetColumnFamily x3 e) = new_files e"
  "new_files (MarkAtomicGroup x3 e) = new_files e"
  "new_table_files (SetDBId x1 e) = new_table_files e"
  "new_table_files (SetComparatorName x1 e) = new_table_files e"
  "new_table_files (SetLogNumber x2 e) = new_table_files e"
  "new_table_files (SetPrevLogNumber x2 e) = new_table_files e"
  "new_table_files (SetNextFile x2 e) = new_table_files e"
  "new_table_files (SetMaxColumnFamily x3 e) = new_table_files e"
  "new_table_files (SetMinLogNumberToKeep x2 e) = new_table_files e"
  "new_table_files (SetLastSequence x2 e) = new_table_files e"
  "new_table_files (DeleteFile l x2 e) = new_table_files e"
  "new_table_files (AddGuard l x1 e) = new_table_files e"
  "new_table_files (DeleteGuard l x1 e) = new_table_files e"
  "new_table_files (AddCompactCursor l k e) = new_table_files e"
  "new_table_files (SetCompactCursors V ks e) = new_table_files e"
  "new_table_files (AddBlobFile5 b1 b2 b3 b4 b5 e) = new_table_files e"
  "new_table_files (AddBlobFile a e) = new_table_files e"
  "new_table_files (AddBlobFileGarbage3 b1 b2 b3 e) = new_table_files e"
  "new_table_files (AddBlobFileGarbage g e) = new_table_files e"
  "new_table_files (SetColumnFamily x3 e) = new_table_files e"
  "new_table_files (MarkAtomicGroup x3 e) = new_table_files e"
  by (simp_all add: plain_setters SetLastSequence_def)

lemma asserting_setters_files:
  "SetBlobFileAdditions as e = Inr e' \<Longrightarrow>
     new_files e' = new_files e \<and> new_table_files e' = new_table_files e"
  "SetBlobFileGarbages gs e = Inr e' \<Longrightarrow>
     new_files e' = new_files e \<and> new_table_files e' = new_table_files e"
  "AddWal W n m e = Inr e' \<Longrightarrow>
     new_files e' = new_files e \<and> new_table_files e' = new_table_files e"
  "DeleteWalsBefore W n e = Inr e' \<Longrightarrow>
     new_files e' = new_files e \<and> new_table_files e' = new_table_files e"
  "AddColumnFamily W name e = Inr e' \<Longrightarrow>
     new_files e' = new_files e \<and> new_table_files e' = new_table_files e"
  "DropColumnFamily W e = Inr e' \<Longrightarrow>
     new_files e' = new_files e \<and> new_table_files e' = new_table_files e"
  "SetFullHistoryTsLow ts e = Inr e' \<Longrightarrow>
     new_files e' = new_files e \<and> new_table_files e' = new_table_files e"
  by (auto simp: asserting_setters split: if_splits)

lemma apply_call_files_ordered:
  assumes "apply_call W V c e = Inr e'" and "files_ordered e"
  shows "files_ordered e'"
  using assms
  by (cases c)
    (auto simp: files_ordered_def add_overloads
      dest!: AddFile_result AddTableFile_result asserting_setters_files)

lemma run_calls_files_ordered:
  assumes "run_calls W V cs e0 = Inr e" and "files_ordered e0"
  shows "files_ordered e"
  using assms
proof (induction cs arbitrary: e0)
  case Nil
  then show ?case by simp
next
  case (Cons c cs)
  from Cons.prems(1) obtain e1 where step: "apply_call W V c e0 = Inr e1"
    and rest: "run_calls W V cs e1 = Inr e"
    by (auto split: sum.splits)
  from apply_call_files_ordered [OF step Cons.prems(2)] have "files_ordered e1" .
  with rest show ?case by (rule Cons.IH)
qed


text \<open>
  Claim C3, as amended. \<open>AddFile\<close> and \<open>AddTableFile\<close>, in every overload, assert that
  the smallest sequence number is at most the largest. A call that violates this fails
  the assertion. A call that respects it succeeds and appends exactly the metadata it
  was given, or the metadata that the constructor builds from its arguments, to its
  own list and leaves the other list alone; the overloads that take the fields are the
  overloads that take the metadata, applied to the constructed metadata. So every file
  that a sequence of calls has added to an edit has its sequence numbers in order. The
  constructors of \<open>FileDescriptor\<close> and \<open>FileMetaData\<close> check nothing: those that take
  sequence numbers store them as given, and those that take none, the default
  constructors among them, set the smallest to \<open>kMaxSequenceNumber\<close> and the largest
  to 0.
\<close>

theorem seqno_order_asserted_by_add_calls:
  fixes e e' e0 e1 :: "('m, 'd) VersionEdit"
  shows
  "(\<not> seqno_ordered f \<longrightarrow>
      AddFile level f e = Inl AssertionFailure \<and> AddTableFile f e = Inl AssertionFailure) \<and>
   (\<not> s \<le> l \<longrightarrow>
      AddFile18 level fnum pid fsize sk lk s l mk temp ob oa ct cs cf mn mx uid e = Inl AssertionFailure \<and>
      AddFile22 level fnum pid cr te me sm fsize sk lk s l mk temp ob oa ct cs cf mn mx uid e = Inl AssertionFailure \<and>
      AddTableFile18 fnum pid te_narrow fsize sk lk s l mk temp ob oa ct cs cf mn mx uid e = Inl AssertionFailure) \<and>
   (seqno_ordered f \<longrightarrow>
      (\<exists>e'. AddFile level f e = Inr e' \<and> GetNewFiles e' = GetNewFiles e @ [(level, f)]) \<and>
      (\<exists>e'. AddTableFile f e = Inr e' \<and> GetNewTableFiles e' = GetNewTableFiles e @ [f])) \<and>
   (run_calls W V calls e0 = Inr e1 \<and> files_ordered e0 \<longrightarrow> files_ordered e1) \<and>
   (s \<le> l \<longrightarrow>
      (\<exists>e'. AddFile18 level fnum pid fsize sk lk s l mk temp ob oa ct cs cf mn mx uid e = Inr e' \<and>
         GetNewFiles e' = GetNewFiles e @
           [(level, FileMetaData17 fnum pid fsize sk lk s l mk temp ob oa ct cs cf mn mx uid)] \<and>
         GetNewTableFiles e' = GetNewTableFiles e) \<and>
      (\<exists>e'. AddFile22 level fnum pid cr te me sm fsize sk lk s l mk temp ob oa ct cs cf mn mx uid e = Inr e' \<and>
         GetNewFiles e' = GetNewFiles e @
           [(level, FileMetaData24 fnum pid cr te te me sm Map.empty fsize 0 sk lk s l mk temp
                      ob oa ct cs cf mn mx uid)] \<and>
         GetNewTableFiles e' = GetNewTableFiles e) \<and>
      (\<exists>e'. AddTableFile18 fnum pid te_narrow fsize sk lk s l mk temp ob oa ct cs cf mn mx uid e = Inr e' \<and>
         GetNewTableFiles e' = GetNewTableFiles e @
           [FileMetaData24 fnum pid [] (ucast te_narrow) 0 0 Map.empty Map.empty fsize 0 sk lk s l
              mk temp ob oa ct cs cf mn mx uid] \<and>
         GetNewFiles e' = GetNewFiles e)) \<and>
   (AddFile18 level fnum pid fsize sk lk s l mk temp ob oa ct cs cf mn mx uid e =
      AddFile level (FileMetaData17 fnum pid fsize sk lk s l mk temp ob oa ct cs cf mn mx uid) e \<and>
    AddFile22 level fnum pid cr te me sm fsize sk lk s l mk temp ob oa ct cs cf mn mx uid e =
      AddFile level (FileMetaData24 fnum pid cr te te me sm Map.empty fsize 0 sk lk s l mk temp
                       ob oa ct cs cf mn mx uid) e \<and>
    AddTableFile18 fnum pid te_narrow fsize sk lk s l mk temp ob oa ct cs cf mn mx uid e =
      AddTableFile (FileMetaData24 fnum pid [] (ucast te_narrow) 0 0 Map.empty Map.empty fsize 0
                      sk lk s l mk temp ob oa ct cs cf mn mx uid) e) \<and>
   (AddFile level f e = Inr e' \<longrightarrow>
      seqno_ordered f \<and> GetNewFiles e' = GetNewFiles e @ [(level, f)] \<and>
      GetNewTableFiles e' = GetNewTableFiles e) \<and>
   (AddTableFile f e = Inr e' \<longrightarrow>
      seqno_ordered f \<and> GetNewTableFiles e' = GetNewTableFiles e @ [f] \<and>
      GetNewFiles e' = GetNewFiles e) \<and>
   smallest_seqno (FileDescriptor8 fnum pid sm fm fsize sub_fsize s l) = s \<and>
   largest_seqno (FileDescriptor8 fnum pid sm fm fsize sub_fsize s l) = l \<and>
   smallest_seqno (FileDescriptor6 fnum pid fsize sub_fsize s l) = s \<and>
   largest_seqno (FileDescriptor6 fnum pid fsize sub_fsize s l) = l \<and>
   smallest_seqno (FileDescriptor5 fnum pid fsize s l) = s \<and>
   largest_seqno (FileDescriptor5 fnum pid fsize s l) = l \<and>
   smallest_seqno (FileDescriptor4 kmax fnum pid fsize sub_fsize) = kmax \<and>
   largest_seqno (FileDescriptor4 kmax fnum pid fsize sub_fsize) = 0 \<and>
   smallest_seqno (FileDescriptor3 kmax fnum pid fsize) = kmax \<and>
   largest_seqno (FileDescriptor3 kmax fnum pid fsize) = 0 \<and>
   smallest_seqno (FileDescriptor0 kmax) = kmax \<and>
   largest_seqno (FileDescriptor0 kmax) = 0 \<and>
   smallest_seqno (fd (FileMetaData17 fnum pid fsize sk lk s l mk temp ob oa ct cs cf mn mx uid)) = s \<and>
   largest_seqno (fd (FileMetaData17 fnum pid fsize sk lk s l mk temp ob oa ct cs cf mn mx uid)) = l \<and>
   smallest_seqno (fd (FileMetaData24 fnum pid cr te re me sm fm fsize sub_fsize sk lk s l mk temp
                         ob oa ct cs cf mn mx uid)) = s \<and>
   largest_seqno (fd (FileMetaData24 fnum pid cr te re me sm fm fsize sub_fsize sk lk s l mk temp
                        ob oa ct cs cf mn mx uid)) = l \<and>
   smallest_seqno (fd (FileMetaData23 fnum pid cr te re sm fm fsize sub_fsize sk lk s l mk temp
                         ob oa ct cs cf mn mx uid)) = s \<and>
   largest_seqno (fd (FileMetaData23 fnum pid cr te re sm fm fsize sub_fsize sk lk s l mk temp
                        ob oa ct cs cf mn mx uid)) = l \<and>
   smallest_seqno (fd (FileMetaData0 kmax temp ob cs cf)) = kmax \<and>
   largest_seqno (fd (FileMetaData0 kmax temp ob cs cf)) = 0"
proof -
  let ?f17 = "FileMetaData17 fnum pid fsize sk lk s l mk temp ob oa ct cs cf mn mx uid"
  let ?f22 = "FileMetaData24 fnum pid cr te te me sm Map.empty fsize 0 sk lk s l mk temp
                ob oa ct cs cf mn mx uid"
  let ?ft = "FileMetaData24 fnum pid [] (ucast te_narrow) 0 0 Map.empty Map.empty fsize 0
               sk lk s l mk temp ob oa ct cs cf mn mx uid"
  have fail: "AddFile level f e = Inl AssertionFailure \<and> AddTableFile f e = Inl AssertionFailure"
    if "\<not> seqno_ordered f"
    using that by (simp add: AddFile_def AddTableFile_def seqno_ordered_def)
  have fail_fields:
    "AddFile18 level fnum pid fsize sk lk s l mk temp ob oa ct cs cf mn mx uid e = Inl AssertionFailure \<and>
     AddFile22 level fnum pid cr te me sm fsize sk lk s l mk temp ob oa ct cs cf mn mx uid e = Inl AssertionFailure \<and>
     AddTableFile18 fnum pid te_narrow fsize sk lk s l mk temp ob oa ct cs cf mn mx uid e = Inl AssertionFailure"
    if "\<not> s \<le> l"
    using that by (simp add: AddFile18_def AddFile22_def AddTableFile18_def)
  have pass_file:
    "\<exists>e'. AddFile level g e = Inr e' \<and> GetNewFiles e' = GetNewFiles e @ [(level, g)] \<and>
       GetNewTableFiles e' = GetNewTableFiles e"
    if "seqno_ordered g" for g
    using that
    by (simp add: AddFile_def seqno_ordered_def Let_def SetLastSequence_def
        GetNewFiles_def GetNewTableFiles_def)
  have pass_table:
    "\<exists>e'. AddTableFile g e = Inr e' \<and> GetNewTableFiles e' = GetNewTableFiles e @ [g] \<and>
       GetNewFiles e' = GetNewFiles e"
    if "seqno_ordered g" for g
    using that
    by (simp add: AddTableFile_def seqno_ordered_def Let_def SetLastSequence_def
        GetNewFiles_def GetNewTableFiles_def)
  have pass:
    "(\<exists>e'. AddFile level f e = Inr e' \<and> GetNewFiles e' = GetNewFiles e @ [(level, f)]) \<and>
     (\<exists>e'. AddTableFile f e = Inr e' \<and> GetNewTableFiles e' = GetNewTableFiles e @ [f])"
    if "seqno_ordered f"
    using pass_file [OF that] pass_table [OF that] by blast
  have inv: "files_ordered e1" if "run_calls W V calls e0 = Inr e1 \<and> files_ordered e0"
    using that run_calls_files_ordered by blast
  have pass_fields:
    "(\<exists>e'. AddFile18 level fnum pid fsize sk lk s l mk temp ob oa ct cs cf mn mx uid e = Inr e' \<and>
         GetNewFiles e' = GetNewFiles e @ [(level, ?f17)] \<and>
         GetNewTableFiles e' = GetNewTableFiles e) \<and>
     (\<exists>e'. AddFile22 level fnum pid cr te me sm fsize sk lk s l mk temp ob oa ct cs cf mn mx uid e = Inr e' \<and>
         GetNewFiles e' = GetNewFiles e @ [(level, ?f22)] \<and>
         GetNewTableFiles e' = GetNewTableFiles e) \<and>
     (\<exists>e'. AddTableFile18 fnum pid te_narrow fsize sk lk s l mk temp ob oa ct cs cf mn mx uid e = Inr e' \<and>
         GetNewTableFiles e' = GetNewTableFiles e @ [?ft] \<and>
         GetNewFiles e' = GetNewFiles e)"
    if "s \<le> l"
  proof -
    from that have "seqno_ordered ?f17" "seqno_ordered ?f22" "seqno_ordered ?ft"
      by (simp_all add: seqno_ordered_def)
    from pass_file [OF this(1)] pass_file [OF this(2)] pass_table [OF this(3)]
    show ?thesis
      by (simp only: add_overloads simp_thms)
  qed
  have overloads:
    "AddFile18 level fnum pid fsize sk lk s l mk temp ob oa ct cs cf mn mx uid e =
       AddFile level ?f17 e \<and>
     AddFile22 level fnum pid cr te me sm fsize sk lk s l mk temp ob oa ct cs cf mn mx uid e =
       AddFile level ?f22 e \<and>
     AddTableFile18 fnum pid te_narrow fsize sk lk s l mk temp ob oa ct cs cf mn mx uid e =
       AddTableFile ?ft e"
    by (simp only: add_overloads simp_thms)
  have file_result: "seqno_ordered f \<and> GetNewFiles e' = GetNewFiles e @ [(level, f)] \<and>
      GetNewTableFiles e' = GetNewTableFiles e"
    if "AddFile level f e = Inr e'"
    using AddFile_result [OF that] by (simp add: GetNewFiles_def GetNewTableFiles_def)
  have table_result: "seqno_ordered f \<and> GetNewTableFiles e' = GetNewTableFiles e @ [f] \<and>
      GetNewFiles e' = GetNewFiles e"
    if "AddTableFile f e = Inr e'"
    using AddTableFile_result [OF that] by (simp add: GetNewFiles_def GetNewTableFiles_def)
  have ctors:
    "smallest_seqno (FileDescriptor8 fnum pid sm fm fsize sub_fsize s l) = s \<and>
     largest_seqno (FileDescriptor8 fnum pid sm fm fsize sub_fsize s l) = l \<and>
     smallest_seqno (FileDescriptor6 fnum pid fsize sub_fsize s l) = s \<and>
     largest_seqno (FileDescriptor6 fnum pid fsize sub_fsize s l) = l \<and>
     smallest_seqno (FileDescriptor5 fnum pid fsize s l) = s \<and>
     largest_seqno (FileDescriptor5 fnum pid fsize s l) = l \<and>
     smallest_seqno (FileDescriptor4 kmax fnum pid fsize sub_fsize) = kmax \<and>
     largest_seqno (FileDescriptor4 kmax fnum pid fsize sub_fsize) = 0 \<and>
     smallest_seqno (FileDescriptor3 kmax fnum pid fsize) = kmax \<and>
     largest_seqno (FileDescriptor3 kmax fnum pid fsize) = 0 \<and>
     smallest_seqno (FileDescriptor0 kmax) = kmax \<and>
     largest_seqno (FileDescriptor0 kmax) = 0 \<and>
     smallest_seqno (fd ?f17) = s \<and>
     largest_seqno (fd ?f17) = l \<and>
     smallest_seqno (fd (FileMetaData24 fnum pid cr te re me sm fm fsize sub_fsize sk lk s l mk temp
                           ob oa ct cs cf mn mx uid)) = s \<and>
     largest_seqno (fd (FileMetaData24 fnum pid cr te re me sm fm fsize sub_fsize sk lk s l mk temp
                          ob oa ct cs cf mn mx uid)) = l \<and>
     smallest_seqno (fd (FileMetaData23 fnum pid cr te re sm fm fsize sub_fsize sk lk s l mk temp
                           ob oa ct cs cf mn mx uid)) = s \<and>
     largest_seqno (fd (FileMetaData23 fnum pid cr te re sm fm fsize sub_fsize sk lk s l mk temp
                          ob oa ct cs cf mn mx uid)) = l \<and>
     smallest_seqno (fd (FileMetaData0 kmax temp ob cs cf)) = kmax \<and>
     largest_seqno (fd (FileMetaData0 kmax temp ob cs cf)) = 0"
    by (simp add: FileDescriptor8_def FileDescriptor6_def FileDescriptor5_def
        FileDescriptor4_def FileDescriptor3_def FileDescriptor0_def FileMetaData23_def
        FileMetaData0_def)
  show ?thesis
    by (rule conjI [OF impI [OF fail] conjI [OF impI [OF fail_fields] conjI [OF impI [OF pass]
          conjI [OF impI [OF inv] conjI [OF impI [OF pass_fields] conjI [OF overloads
          conjI [OF impI [OF file_result] conjI [OF impI [OF table_result] ctors]]]]]]]])
qed

text \<open>
  The claim as stated, for every constructed descriptor, fails: the constructor with
  five arguments accepts the sequence numbers 5 and 3 and stores them.
\<close>

theorem constructed_descriptor_unordered_counterexample:
  "smallest_seqno (FileDescriptor5 7 0 4096 5 3) = 5 \<and>
   largest_seqno (FileDescriptor5 7 0 4096 5 3) = 3 \<and>
   \<not> smallest_seqno (FileDescriptor5 7 0 4096 5 3) \<le> largest_seqno (FileDescriptor5 7 0 4096 5 3) \<and>
   \<not> seqno_ordered (FileMetaData17 7 0 4096 (InternalKey ''a'') (InternalKey ''b'') 5 3 False 0 0 0 0 [] [] [] [] (0, 0))"
  by (simp add: FileDescriptor5_def FileDescriptor8_def seqno_ordered_def)


theorem seqno_order_asserted_by_add_calls_witness:
  "\<not> seqno_ordered (FileMetaData17 7 0 4096 (InternalKey ''a'') (InternalKey ''b'') 5 3 False 0 0 0 0 [] [] [] [] (0, 0)) \<and>
   AddFile 0 (FileMetaData17 7 0 4096 (InternalKey ''a'') (InternalKey ''b'') 5 3 False 0 0 0 0 [] [] [] [] (0, 0))
     (VersionEdit0 WalDeletion_number :: (unit, WalNumber) VersionEdit) = Inl AssertionFailure \<and>
   \<not> (5 :: SequenceNumber) \<le> 3 \<and>
   AddTableFile18 7 0 10 4096 (InternalKey ''a'') (InternalKey ''b'') 5 3 False 0 0 0 0 [] [] [] [] (0, 0)
     (VersionEdit0 WalDeletion_number :: (unit, WalNumber) VersionEdit) = Inl AssertionFailure \<and>
   seqno_ordered (FileMetaData17 8 0 4096 (InternalKey ''a'') (InternalKey ''b'') 3 5 False 0 0 0 0 [] [] [] [] (0, 0)) \<and>
   (\<exists>e'. AddFile 0 (FileMetaData17 8 0 4096 (InternalKey ''a'') (InternalKey ''b'') 3 5 False 0 0 0 0 [] [] [] [] (0, 0))
            (VersionEdit0 WalDeletion_number :: (unit, WalNumber) VersionEdit) = Inr e' \<and>
         GetNewFiles e' =
           [(0, FileMetaData17 8 0 4096 (InternalKey ''a'') (InternalKey ''b'') 3 5 False 0 0 0 0 [] [] [] [] (0, 0))]) \<and>
   files_ordered (VersionEdit0 WalDeletion_number :: (unit, WalNumber) VersionEdit) \<and>
   (\<exists>e1. run_calls WalDeletion_number Valid_nonempty
            [Call_AddFile18 0 8 0 4096 (InternalKey ''a'') (InternalKey ''b'') 3 5 False 0 0 0 0 [] [] [] [] (0, 0),
             Call_AddTableFile18 9 0 10 4096 (InternalKey ''a'') (InternalKey ''b'') 2 6 False 0 0 0 0 [] [] [] [] (0, 0)]
            (VersionEdit0 WalDeletion_number :: (unit, WalNumber) VersionEdit) = Inr e1 \<and>
          files_ordered e1) \<and>
   (3 :: SequenceNumber) \<le> 5 \<and>
   (\<exists>e'. AddFile18 0 8 0 4096 (InternalKey ''a'') (InternalKey ''b'') 3 5 False 0 0 0 0 [] [] [] [] (0, 0)
            (VersionEdit0 WalDeletion_number :: (unit, WalNumber) VersionEdit) = Inr e' \<and>
         GetNewFiles e' =
           [(0, FileMetaData17 8 0 4096 (InternalKey ''a'') (InternalKey ''b'') 3 5 False 0 0 0 0 [] [] [] [] (0, 0))] \<and>
         GetNewTableFiles e' = []) \<and>
   (\<exists>e'. AddTableFile18 8 0 10 4096 (InternalKey ''a'') (InternalKey ''b'') 3 5 False 0 0 0 0 [] [] [] [] (0, 0)
            (VersionEdit0 WalDeletion_number :: (unit, WalNumber) VersionEdit) = Inr e' \<and>
         GetNewTableFiles e' =
           [FileMetaData24 8 0 [] 10 0 0 Map.empty Map.empty 4096 0 (InternalKey ''a'') (InternalKey ''b'') 3 5
              False 0 0 0 0 [] [] [] [] (0, 0)] \<and>
         GetNewFiles e' = []) \<and>
   (\<exists>e'. AddFile 0 (FileMetaData17 8 0 4096 (InternalKey ''a'') (InternalKey ''b'') 3 5 False 0 0 0 0 [] [] [] [] (0, 0))
            (VersionEdit0 WalDeletion_number :: (unit, WalNumber) VersionEdit) = Inr e' \<and>
         GetNewTableFiles e' = []) \<and>
   (\<exists>e'. AddTableFile (FileMetaData17 8 0 4096 (InternalKey ''a'') (InternalKey ''b'') 3 5 False 0 0 0 0 [] [] [] [] (0, 0))
            (VersionEdit0 WalDeletion_number :: (unit, WalNumber) VersionEdit) = Inr e' \<and>
         GetNewFiles e' = [])"
proof -
  let ?e0 = "VersionEdit0 WalDeletion_number :: (unit, WalNumber) VersionEdit"
  let ?bad = "FileMetaData17 7 0 4096 (InternalKey ''a'') (InternalKey ''b'') 5 3 False 0 0 0 0 [] [] [] [] (0, 0)"
  let ?good = "FileMetaData17 8 0 4096 (InternalKey ''a'') (InternalKey ''b'') 3 5 False 0 0 0 0 [] [] [] [] (0, 0)"
  let ?cs = "[Call_AddFile18 0 8 0 4096 (InternalKey ''a'') (InternalKey ''b'') 3 5 False 0 0 0 0 [] [] [] [] (0, 0),
             Call_AddTableFile18 9 0 10 4096 (InternalKey ''a'') (InternalKey ''b'') 2 6 False 0 0 0 0 [] [] [] [] (0, 0)] :: unit call list"
  have bad: "\<not> seqno_ordered ?bad" by (simp add: seqno_ordered_def)
  have bad53: "\<not> (5 :: SequenceNumber) \<le> 3" by simp
  have le35: "(3 :: SequenceNumber) \<le> 5" by simp
  have good: "seqno_ordered ?good" by (simp add: seqno_ordered_def)
  have init: "files_ordered ?e0" by (simp add: files_ordered_def VersionEdit0_def)
  obtain e1 where run: "run_calls WalDeletion_number Valid_nonempty ?cs ?e0 = Inr e1"
    using run_calls_add_succeeds [of ?cs WalDeletion_number Valid_nonempty ?e0]
    by (auto simp: is_add_call_def add_call_ordered_def)
  note t1 = seqno_order_asserted_by_add_calls
    [where f = ?bad and level = 0 and e = ?e0 and s = 5 and l = 3 and fnum = 7 and pid = 0
       and te_narrow = 10 and fsize = 4096 and sk = "InternalKey ''a''" and lk = "InternalKey ''b''"
       and mk = False and temp = 0 and ob = 0 and oa = 0 and ct = 0 and cs = "[]" and cf = "[]"
       and mn = "[]" and mx = "[]" and uid = "(0, 0)"]
  note t2 = seqno_order_asserted_by_add_calls
    [where f = ?good and level = 0 and e = ?e0 and W = WalDeletion_number
       and V = Valid_nonempty and calls = ?cs and ?e0.0 = ?e0 and ?e1.0 = e1]
  note t3 = seqno_order_asserted_by_add_calls
    [where level = 0 and e = ?e0 and s = 3 and l = 5 and fnum = 8 and pid = 0
       and te_narrow = 10 and fsize = 4096 and sk = "InternalKey ''a''" and lk = "InternalKey ''b''"
       and mk = False and temp = 0 and ob = 0 and oa = 0 and ct = 0 and cs = "[]" and cf = "[]"
       and mn = "[]" and mx = "[]" and uid = "(0, 0)"]
  have nf: "GetNewFiles ?e0 = []" by (simp add: GetNewFiles_def VersionEdit0_def)
  have nt: "GetNewTableFiles ?e0 = []" by (simp add: GetNewTableFiles_def VersionEdit0_def)
  from t1 [THEN conjunct1, THEN mp, OF bad]
  have c1: "AddFile 0 ?bad ?e0 = Inl AssertionFailure" by (rule conjunct1)
  from t1 [THEN conjunct2, THEN conjunct1, THEN mp, OF bad53]
  have c2: "AddTableFile18 7 0 10 4096 (InternalKey ''a'') (InternalKey ''b'') 5 3 False 0 0 0 0 [] [] [] [] (0, 0) ?e0 = Inl AssertionFailure"
    by simp
  note pass = t2 [THEN conjunct2, THEN conjunct2, THEN conjunct1, THEN mp, OF good]
  from pass have c3: "\<exists>e'. AddFile 0 ?good ?e0 = Inr e' \<and> GetNewFiles e' = [(0, ?good)]"
    by (simp only: nf append_Nil)
  from pass obtain e2 where e2: "AddFile 0 ?good ?e0 = Inr e2" by blast
  from pass obtain e3 where e3: "AddTableFile ?good ?e0 = Inr e3" by blast
  from t2 [THEN conjunct2, THEN conjunct2, THEN conjunct2, THEN conjunct1, THEN mp,
      OF conjI [OF run init]]
  have c4: "files_ordered e1" .
  note fields = t3 [THEN conjunct2, THEN conjunct2, THEN conjunct2, THEN conjunct2,
      THEN conjunct1, THEN mp, OF le35]
  from fields [THEN conjunct1]
  have c5: "\<exists>e'. AddFile18 0 8 0 4096 (InternalKey ''a'') (InternalKey ''b'') 3 5 False 0 0 0 0 [] [] [] [] (0, 0) ?e0 = Inr e' \<and>
         GetNewFiles e' = [(0, ?good)] \<and> GetNewTableFiles e' = []"
    by (simp only: nf nt append_Nil)
  from fields [THEN conjunct2, THEN conjunct2]
  have c6: "\<exists>e'. AddTableFile18 8 0 10 4096 (InternalKey ''a'') (InternalKey ''b'') 3 5 False 0 0 0 0 [] [] [] [] (0, 0) ?e0 = Inr e' \<and>
         GetNewTableFiles e' =
           [FileMetaData24 8 0 [] 10 0 0 Map.empty Map.empty 4096 0 (InternalKey ''a'') (InternalKey ''b'') 3 5
              False 0 0 0 0 [] [] [] [] (0, 0)] \<and>
         GetNewFiles e' = []"
    by (simp add: nf nt)
  from seqno_order_asserted_by_add_calls
    [where f = ?good and level = 0 and e = ?e0 and e' = e2, THEN conjunct2, THEN conjunct2,
      THEN conjunct2, THEN conjunct2, THEN conjunct2, THEN conjunct2, THEN conjunct1,
      THEN mp, OF e2] e2
  have c7: "\<exists>e'. AddFile 0 ?good ?e0 = Inr e' \<and> GetNewTableFiles e' = []"
    by (auto simp: nt)
  from seqno_order_asserted_by_add_calls
    [where f = ?good and e = ?e0 and e' = e3, THEN conjunct2, THEN conjunct2,
      THEN conjunct2, THEN conjunct2, THEN conjunct2, THEN conjunct2, THEN conjunct2,
      THEN conjunct1, THEN mp, OF e3] e3
  have c8: "\<exists>e'. AddTableFile ?good ?e0 = Inr e' \<and> GetNewFiles e' = []"
    by (auto simp: nf)
  have c9: "\<exists>e1. run_calls WalDeletion_number Valid_nonempty ?cs ?e0 = Inr e1 \<and> files_ordered e1"
    using run c4 by blast
  show ?thesis
    by (rule conjI [OF bad conjI [OF c1 conjI [OF bad53 conjI [OF c2 conjI [OF good
          conjI [OF c3 conjI [OF init conjI [OF c9 conjI [OF le35 conjI [OF c5
          conjI [OF c6 conjI [OF c7 c8]]]]]]]]]]]])
qed

subsection \<open>What the number of entries counts\<close>

lemma NumEntries_VersionEdit0:
  "IsEmpty W (WalDeletion0 W) \<Longrightarrow> NumEntries W (VersionEdit0 W) = 0"
  by (simp add: NumEntries_def VersionEdit0_def)

lemma AddTableFile_counted:
  assumes "AddTableFile f e = Inr e'"
  shows "new_files e' = new_files e \<and> deleted_files e' = deleted_files e \<and>
         blob_file_additions e' = blob_file_additions e \<and>
         blob_file_garbages e' = blob_file_garbages e \<and>
         wal_additions e' = wal_additions e \<and> wal_deletion e' = wal_deletion e \<and>
         is_column_family_add e' = is_column_family_add e \<and>
         is_column_family_drop e' = is_column_family_drop e"
  using assms
  by (auto simp: AddTableFile_def SetLastSequence_def Let_def split: if_splits)

lemma AddTableFile_guards_cursors:
  assumes "AddTableFile f e = Inr e'"
  shows "new_guard e' = new_guard e \<and> deleted_guard e' = deleted_guard e \<and>
         compact_cursors e' = compact_cursors e"
  using assms
  by (auto simp: AddTableFile_def SetLastSequence_def Let_def split: if_splits)

lemma uncounted_setters_counted:
  "new_files (AddGuard l g e) = new_files e"
  "deleted_files (AddGuard l g e) = deleted_files e"
  "blob_file_additions (AddGuard l g e) = blob_file_additions e"
  "blob_file_garbages (AddGuard l g e) = blob_file_garbages e"
  "wal_additions (AddGuard l g e) = wal_additions e"
  "wal_deletion (AddGuard l g e) = wal_deletion e"
  "is_column_family_add (AddGuard l g e) = is_column_family_add e"
  "is_column_family_drop (AddGuard l g e) = is_column_family_drop e"
  "new_files (DeleteGuard l g e) = new_files e"
  "deleted_files (DeleteGuard l g e) = deleted_files e"
  "blob_file_additions (DeleteGuard l g e) = blob_file_additions e"
  "blob_file_garbages (DeleteGuard l g e) = blob_file_garbages e"
  "wal_additions (DeleteGuard l g e) = wal_additions e"
  "wal_deletion (DeleteGuard l g e) = wal_deletion e"
  "is_column_family_add (DeleteGuard l g e) = is_column_family_add e"
  "is_column_family_drop (DeleteGuard l g e) = is_column_family_drop e"
  "new_files (AddCompactCursor l k e) = new_files e"
  "deleted_files (AddCompactCursor l k e) = deleted_files e"
  "blob_file_additions (AddCompactCursor l k e) = blob_file_additions e"
  "blob_file_garbages (AddCompactCursor l k e) = blob_file_garbages e"
  "wal_additions (AddCompactCursor l k e) = wal_additions e"
  "wal_deletion (AddCompactCursor l k e) = wal_deletion e"
  "is_column_family_add (AddCompactCursor l k e) = is_column_family_add e"
  "is_column_family_drop (AddCompactCursor l k e) = is_column_family_drop e"
  by (simp_all add: AddGuard_def DeleteGuard_def AddCompactCursor_def)

text \<open>What the assertions and predicates read of an edit.\<close>

lemma counted_members_determine:
  fixes e e' :: "('m, 'd) VersionEdit"
  assumes "new_files e' = new_files e" and "deleted_files e' = deleted_files e"
    and "blob_file_additions e' = blob_file_additions e"
    and "blob_file_garbages e' = blob_file_garbages e"
    and "wal_additions e' = wal_additions e" and "wal_deletion e' = wal_deletion e"
    and "is_column_family_add e' = is_column_family_add e"
    and "is_column_family_drop e' = is_column_family_drop e"
  shows "NumEntries W e' = NumEntries W e \<and>
    IsWalManipulation W e' = IsWalManipulation W e \<and>
    (\<exists>x. AddColumnFamily W name e' = Inr x) = (\<exists>x. AddColumnFamily W name e = Inr x) \<and>
    (\<exists>x. DropColumnFamily W e' = Inr x) = (\<exists>x. DropColumnFamily W e = Inr x)"
  using assms
  by (simp add: NumEntries_def IsWalManipulation_def AddColumnFamily_def DropColumnFamily_def)

text \<open>
  Claim C10. \<open>NumEntries()\<close> adds the sizes of the new files, the deleted files, the
  blob file additions, the blob file garbages and the WAL additions, and one for a WAL
  deletion that is not empty. \<open>AddTableFile\<close>, \<open>AddGuard\<close>, \<open>DeleteGuard\<close> and
  \<open>AddCompactCursor\<close> record their argument and leave \<open>NumEntries()\<close> as it was;
  neither \<open>IsWalManipulation()\<close> nor the success of \<open>AddColumnFamily\<close> and
  \<open>DropColumnFamily\<close> changes with them. A fresh edit that received a table file, a
  guard, a deleted guard and a cursor carries all four, has \<open>NumEntries() = 0\<close>, and
  both column-family calls pass their assertions on it.
\<close>

theorem uncounted_members_invisible:
  fixes e e' :: "('m, 'd) VersionEdit"
  shows
  "NumEntries W e =
     length (GetNewFiles e) + fcard (GetDeletedFiles e) + length (GetBlobFileAdditions e) +
     length (GetBlobFileGarbages e) + length (GetWalAdditions e) +
     (if IsWalDeletion W e then 1 else 0) \<and>
   (AddTableFile f e = Inr e' \<longrightarrow>
      GetNewTableFiles e' = GetNewTableFiles e @ [f] \<and>
      NumEntries W e' = NumEntries W e \<and>
      IsWalManipulation W e' = IsWalManipulation W e \<and>
      (\<exists>x. AddColumnFamily W name e' = Inr x) = (\<exists>x. AddColumnFamily W name e = Inr x) \<and>
      (\<exists>x. DropColumnFamily W e' = Inr x) = (\<exists>x. DropColumnFamily W e = Inr x)) \<and>
   (AddTableFile18 fnum pid te_narrow fsize sk lk s l mk temp ob oa ct cs cf mn mx uid e = Inr e' \<longrightarrow>
      length (GetNewTableFiles e') = Suc (length (GetNewTableFiles e)) \<and>
      NumEntries W e' = NumEntries W e \<and>
      IsWalManipulation W e' = IsWalManipulation W e \<and>
      (\<exists>x. AddColumnFamily W name e' = Inr x) = (\<exists>x. AddColumnFamily W name e = Inr x) \<and>
      (\<exists>x. DropColumnFamily W e' = Inr x) = (\<exists>x. DropColumnFamily W e = Inr x)) \<and>
   (GetNewGuards (AddGuard level g e) = finsert (level, g) (GetNewGuards e) \<and>
      NumEntries W (AddGuard level g e) = NumEntries W e \<and>
      IsWalManipulation W (AddGuard level g e) = IsWalManipulation W e \<and>
      (\<exists>x. AddColumnFamily W name (AddGuard level g e) = Inr x) =
        (\<exists>x. AddColumnFamily W name e = Inr x) \<and>
      (\<exists>x. DropColumnFamily W (AddGuard level g e) = Inr x) =
        (\<exists>x. DropColumnFamily W e = Inr x)) \<and>
   (GetDeletedGuards (DeleteGuard level g e) = finsert (level, g) (GetDeletedGuards e) \<and>
      NumEntries W (DeleteGuard level g e) = NumEntries W e \<and>
      IsWalManipulation W (DeleteGuard level g e) = IsWalManipulation W e \<and>
      (\<exists>x. AddColumnFamily W name (DeleteGuard level g e) = Inr x) =
        (\<exists>x. AddColumnFamily W name e = Inr x) \<and>
      (\<exists>x. DropColumnFamily W (DeleteGuard level g e) = Inr x) =
        (\<exists>x. DropColumnFamily W e = Inr x)) \<and>
   (GetCompactCursors (AddCompactCursor level k e) = GetCompactCursors e @ [(level, k)] \<and>
      NumEntries W (AddCompactCursor level k e) = NumEntries W e \<and>
      IsWalManipulation W (AddCompactCursor level k e) = IsWalManipulation W e \<and>
      (\<exists>x. AddColumnFamily W name (AddCompactCursor level k e) = Inr x) =
        (\<exists>x. AddColumnFamily W name e = Inr x) \<and>
      (\<exists>x. DropColumnFamily W (AddCompactCursor level k e) = Inr x) =
        (\<exists>x. DropColumnFamily W e = Inr x)) \<and>
   (IsEmpty W (WalDeletion0 W) \<and>
    run_calls W V [Call_AddTableFile f, Call_AddGuard level g, Call_DeleteGuard level g,
                   Call_AddCompactCursor level k] (VersionEdit0 W) = Inr e' \<longrightarrow>
      GetNewTableFiles e' = [f] \<and> GetNewGuards e' = {|(level, g)|} \<and>
      GetDeletedGuards e' = {|(level, g)|} \<and> GetCompactCursors e' = [(level, k)] \<and>
      NumEntries W e' = 0 \<and> \<not> IsWalManipulation W e' \<and>
      (\<exists>x. AddColumnFamily W name e' = Inr x) \<and> (\<exists>x. DropColumnFamily W e' = Inr x))"
proof -
  have count: "NumEntries W e =
     length (GetNewFiles e) + fcard (GetDeletedFiles e) + length (GetBlobFileAdditions e) +
     length (GetBlobFileGarbages e) + length (GetWalAdditions e) +
     (if IsWalDeletion W e then 1 else 0)"
    by (simp add: NumEntries_def GetNewFiles_def GetDeletedFiles_def GetBlobFileAdditions_def
        GetBlobFileGarbages_def GetWalAdditions_def IsWalDeletion_def)
  have table: "GetNewTableFiles e' = GetNewTableFiles e @ [f] \<and>
      NumEntries W e' = NumEntries W e \<and>
      IsWalManipulation W e' = IsWalManipulation W e \<and>
      (\<exists>x. AddColumnFamily W name e' = Inr x) = (\<exists>x. AddColumnFamily W name e = Inr x) \<and>
      (\<exists>x. DropColumnFamily W e' = Inr x) = (\<exists>x. DropColumnFamily W e = Inr x)"
    if h: "AddTableFile f e = Inr e'" for f
  proof -
    from AddTableFile_counted [OF h] have
      "new_files e' = new_files e" "deleted_files e' = deleted_files e"
      "blob_file_additions e' = blob_file_additions e"
      "blob_file_garbages e' = blob_file_garbages e"
      "wal_additions e' = wal_additions e" "wal_deletion e' = wal_deletion e"
      "is_column_family_add e' = is_column_family_add e"
      "is_column_family_drop e' = is_column_family_drop e"
      by simp_all
    from counted_members_determine [OF this] AddTableFile_result [OF h]
    show ?thesis by (simp add: GetNewTableFiles_def)
  qed
  have table_fields:
     "length (GetNewTableFiles e') = Suc (length (GetNewTableFiles e)) \<and>
      NumEntries W e' = NumEntries W e \<and>
      IsWalManipulation W e' = IsWalManipulation W e \<and>
      (\<exists>x. AddColumnFamily W name e' = Inr x) = (\<exists>x. AddColumnFamily W name e = Inr x) \<and>
      (\<exists>x. DropColumnFamily W e' = Inr x) = (\<exists>x. DropColumnFamily W e = Inr x)"
    if "AddTableFile18 fnum pid te_narrow fsize sk lk s l mk temp ob oa ct cs cf mn mx uid e = Inr e'"
    using table [OF that [unfolded AddTableFile18_AddTableFile]] by simp
  have guard: "GetNewGuards (AddGuard level g e) = finsert (level, g) (GetNewGuards e) \<and>
      NumEntries W (AddGuard level g e) = NumEntries W e \<and>
      IsWalManipulation W (AddGuard level g e) = IsWalManipulation W e \<and>
      (\<exists>x. AddColumnFamily W name (AddGuard level g e) = Inr x) =
        (\<exists>x. AddColumnFamily W name e = Inr x) \<and>
      (\<exists>x. DropColumnFamily W (AddGuard level g e) = Inr x) =
        (\<exists>x. DropColumnFamily W e = Inr x)"
    using counted_members_determine [of "AddGuard level g e" e]
    by (simp add: uncounted_setters_counted) (simp add: GetNewGuards_def AddGuard_def)
  have dguard: "GetDeletedGuards (DeleteGuard level g e) = finsert (level, g) (GetDeletedGuards e) \<and>
      NumEntries W (DeleteGuard level g e) = NumEntries W e \<and>
      IsWalManipulation W (DeleteGuard level g e) = IsWalManipulation W e \<and>
      (\<exists>x. AddColumnFamily W name (DeleteGuard level g e) = Inr x) =
        (\<exists>x. AddColumnFamily W name e = Inr x) \<and>
      (\<exists>x. DropColumnFamily W (DeleteGuard level g e) = Inr x) =
        (\<exists>x. DropColumnFamily W e = Inr x)"
    using counted_members_determine [of "DeleteGuard level g e" e]
    by (simp add: uncounted_setters_counted) (simp add: GetDeletedGuards_def DeleteGuard_def)
  have cursor: "GetCompactCursors (AddCompactCursor level k e) = GetCompactCursors e @ [(level, k)] \<and>
      NumEntries W (AddCompactCursor level k e) = NumEntries W e \<and>
      IsWalManipulation W (AddCompactCursor level k e) = IsWalManipulation W e \<and>
      (\<exists>x. AddColumnFamily W name (AddCompactCursor level k e) = Inr x) =
        (\<exists>x. AddColumnFamily W name e = Inr x) \<and>
      (\<exists>x. DropColumnFamily W (AddCompactCursor level k e) = Inr x) =
        (\<exists>x. DropColumnFamily W e = Inr x)"
    using counted_members_determine [of "AddCompactCursor level k e" e]
    by (simp add: uncounted_setters_counted) (simp add: GetCompactCursors_def AddCompactCursor_def)
  have carried: "GetNewTableFiles e' = [f] \<and> GetNewGuards e' = {|(level, g)|} \<and>
      GetDeletedGuards e' = {|(level, g)|} \<and> GetCompactCursors e' = [(level, k)] \<and>
      NumEntries W e' = 0 \<and> \<not> IsWalManipulation W e' \<and>
      (\<exists>x. AddColumnFamily W name e' = Inr x) \<and> (\<exists>x. DropColumnFamily W e' = Inr x)"
    if h: "IsEmpty W (WalDeletion0 W) \<and>
      run_calls W V [Call_AddTableFile f, Call_AddGuard level g, Call_DeleteGuard level g,
                   Call_AddCompactCursor level k] (VersionEdit0 W) = Inr e'"
  proof -
    from h obtain e1 where e1: "AddTableFile f (VersionEdit0 W) = Inr e1"
      and e': "e' = AddCompactCursor level k (DeleteGuard level g (AddGuard level g e1))"
      by (auto split: sum.splits)
    from AddTableFile_counted [OF e1] AddTableFile_result [OF e1]
      AddTableFile_guards_cursors [OF e1] h
    show ?thesis
      unfolding e'
      by (simp add: NumEntries_def IsWalManipulation_def AddColumnFamily_def DropColumnFamily_def
          uncounted_setters_counted)
        (simp add: VersionEdit0_def GetNewTableFiles_def GetNewGuards_def GetDeletedGuards_def
          GetCompactCursors_def AddGuard_def DeleteGuard_def AddCompactCursor_def)
  qed
  show ?thesis
    by (rule conjI [OF count conjI [OF impI [OF table] conjI [OF impI [OF table_fields]
          conjI [OF guard conjI [OF dguard conjI [OF cursor impI [OF carried]]]]]]])
qed


theorem uncounted_members_invisible_witness:
  "IsEmpty WalDeletion_number (WalDeletion0 WalDeletion_number) \<and>
   (\<exists>e'. AddTableFile
            (FileMetaData17 8 0 4096 (InternalKey ''a'') (InternalKey ''b'') 3 5 False 0 0 0 0 [] [] [] [] (0, 0))
            (VersionEdit0 WalDeletion_number :: (unit, WalNumber) VersionEdit) = Inr e' \<and>
          NumEntries WalDeletion_number e' =
            NumEntries WalDeletion_number (VersionEdit0 WalDeletion_number :: (unit, WalNumber) VersionEdit)) \<and>
   (\<exists>e'. run_calls WalDeletion_number Valid_nonempty
            [Call_AddTableFile
               (FileMetaData17 8 0 4096 (InternalKey ''a'') (InternalKey ''b'') 3 5 False 0 0 0 0 [] [] [] [] (0, 0)),
             Call_AddGuard 1 ''g'', Call_DeleteGuard 1 ''g'', Call_AddCompactCursor 1 (InternalKey ''a'')]
            (VersionEdit0 WalDeletion_number :: (unit, WalNumber) VersionEdit) = Inr e' \<and>
          GetNewTableFiles e' =
            [FileMetaData17 8 0 4096 (InternalKey ''a'') (InternalKey ''b'') 3 5 False 0 0 0 0 [] [] [] [] (0, 0)] \<and>
          GetNewGuards e' = {|(1, ''g'')|} \<and> GetCompactCursors e' = [(1, InternalKey ''a'')] \<and>
          NumEntries WalDeletion_number e' = 0 \<and>
          (\<exists>x. AddColumnFamily WalDeletion_number ''cf'' e' = Inr x))"
proof -
  let ?W = WalDeletion_number
  let ?e0 = "VersionEdit0 WalDeletion_number :: (unit, WalNumber) VersionEdit"
  let ?f = "FileMetaData17 8 0 4096 (InternalKey ''a'') (InternalKey ''b'') 3 5 False 0 0 0 0 [] [] [] [] (0, 0)"
  let ?cs = "[Call_AddTableFile ?f, Call_AddGuard 1 ''g'', Call_DeleteGuard 1 ''g'',
              Call_AddCompactCursor 1 (InternalKey ''a'')] :: unit call list"
  have emp: "IsEmpty ?W (WalDeletion0 ?W)" by (simp add: WalDeletion_number_def)
  obtain e1 where e1: "AddTableFile ?f ?e0 = Inr e1"
    by (simp add: AddTableFile_def Let_def)
  then obtain e2 where e2: "run_calls ?W Valid_nonempty ?cs ?e0 = Inr e2"
    by simp
  note t1 = uncounted_members_invisible [where e = ?e0 and e' = e1 and f = ?f and W = ?W]
  note t2 = uncounted_members_invisible
    [where e' = e2 and f = ?f and W = ?W and V = Valid_nonempty and level = 1 and g = "''g''"
       and k = "InternalKey ''a''" and name = "''cf''"]
  from t1 [THEN conjunct2, THEN conjunct1, THEN mp, OF e1]
  have c1: "NumEntries ?W e1 = NumEntries ?W ?e0" by simp
  from t2 [THEN conjunct2, THEN conjunct2, THEN conjunct2, THEN conjunct2, THEN conjunct2,
      THEN conjunct2, THEN mp, OF conjI [OF emp e2]]
  have c2: "GetNewTableFiles e2 = [?f] \<and> GetNewGuards e2 = {|(1, ''g'')|} \<and>
      GetCompactCursors e2 = [(1, InternalKey ''a'')] \<and> NumEntries ?W e2 = 0 \<and>
      (\<exists>x. AddColumnFamily ?W ''cf'' e2 = Inr x)"
    by simp
  from emp e1 c1 e2 c2 show ?thesis by blast
qed

subsection \<open>Column-family markers\<close>

lemma nonzero_entries_reject_column_family:
  assumes "NumEntries W e \<noteq> 0"
  shows "AddColumnFamily W name e = Inl AssertionFailure \<and>
         DropColumnFamily W e = Inl AssertionFailure"
  using assms by (simp add: AddColumnFamily_def DropColumnFamily_def)

lemma NumEntries_AddFile:
  "AddFile level f e = Inr e' \<Longrightarrow> NumEntries W e' = Suc (NumEntries W e)"
  by (auto simp: NumEntries_def AddFile_def SetLastSequence_def Let_def split: if_splits)

lemma NumEntries_DeleteFile: "NumEntries W (DeleteFile level fnum e) \<noteq> 0"
  by (simp add: NumEntries_def DeleteFile_def fcard_0_eq)

lemma NumEntries_AddBlobFile:
  "NumEntries W (AddBlobFile a e) = Suc (NumEntries W e)"
  "NumEntries W (AddBlobFile5 b1 b2 b3 b4 b5 e) = Suc (NumEntries W e)"
  "NumEntries W (AddBlobFileGarbage g e) = Suc (NumEntries W e)"
  "NumEntries W (AddBlobFileGarbage3 c1 c2 c3 e) = Suc (NumEntries W e)"
  by (simp_all add: NumEntries_def AddBlobFile_def AddBlobFile5_def AddBlobFileGarbage_def
      AddBlobFileGarbage3_def)

lemma NumEntries_AddWal:
  "AddWal W n m e = Inr e' \<Longrightarrow> NumEntries W e' = Suc (NumEntries W e)"
  by (cases "NumEntries W e = length (wal_additions e)")
    (auto simp: AddWal_def NumEntries_def)

lemma NumEntries_DeleteWalsBefore:
  "DeleteWalsBefore W n e = Inr e' \<Longrightarrow> \<not> IsEmpty W (WalDeletion1 W n) \<Longrightarrow>
     NumEntries W e' \<noteq> 0"
  by (cases "(NumEntries W e = 1) = (\<not> IsEmpty W (wal_deletion e))")
    (auto simp: DeleteWalsBefore_def NumEntries_def)

text \<open>
  Claim C4, as amended. \<open>AddColumnFamily\<close> and \<open>DropColumnFamily\<close> assert, at the time
  of the call, that neither column-family marker is set and that \<open>NumEntries()\<close> is
  zero. So they exclude each other and themselves: right after a successful call
  \<open>NumEntries()\<close> is zero, exactly one marker is set, and either call fails on the
  marked edit. Either call fails right after a mutation that \<open>NumEntries()\<close> counts:
  \<open>AddFile\<close>, \<open>DeleteFile\<close>, \<open>AddBlobFile\<close>, \<open>AddBlobFileGarbage\<close>, \<open>AddWal\<close>, and
  \<open>DeleteWalsBefore\<close> with a deletion that is not empty.
\<close>

theorem column_family_calls_assert_empty_edit:
  fixes e e' :: "('m, 'd) VersionEdit"
  shows
  "AddColumnFamily W name e =
     (if IsColumnFamilyManipulation e \<or> NumEntries W e \<noteq> 0 then Inl AssertionFailure
      else Inr (e\<lparr>is_column_family_add := True, column_family_name := name\<rparr>)) \<and>
   DropColumnFamily W e =
     (if IsColumnFamilyManipulation e \<or> NumEntries W e \<noteq> 0 then Inl AssertionFailure
      else Inr (e\<lparr>is_column_family_drop := True\<rparr>)) \<and>
   (AddColumnFamily W name e = Inr e' \<or> DropColumnFamily W e = Inr e' \<longrightarrow>
      NumEntries W e' = 0 \<and> IsColumnFamilyManipulation e' \<and>
      \<not> (IsColumnFamilyAdd e' \<and> IsColumnFamilyDrop e') \<and>
      AddColumnFamily W other e' = Inl AssertionFailure \<and>
      DropColumnFamily W e' = Inl AssertionFailure) \<and>
   (AddFile level f e = Inr e' \<or> AddWal W n m e = Inr e' \<or>
    (DeleteWalsBefore W n e = Inr e' \<and> \<not> IsEmpty W (WalDeletion1 W n)) \<longrightarrow>
      AddColumnFamily W name e' = Inl AssertionFailure \<and>
      DropColumnFamily W e' = Inl AssertionFailure) \<and>
   (AddColumnFamily W name (DeleteFile level fnum e) = Inl AssertionFailure \<and>
    DropColumnFamily W (DeleteFile level fnum e) = Inl AssertionFailure) \<and>
   (AddColumnFamily W name (AddBlobFile a e) = Inl AssertionFailure \<and>
    DropColumnFamily W (AddBlobFile a e) = Inl AssertionFailure) \<and>
   (AddColumnFamily W name (AddBlobFileGarbage g e) = Inl AssertionFailure \<and>
    DropColumnFamily W (AddBlobFileGarbage g e) = Inl AssertionFailure)"
proof -
  have add: "AddColumnFamily W name e =
     (if IsColumnFamilyManipulation e \<or> NumEntries W e \<noteq> 0 then Inl AssertionFailure
      else Inr (e\<lparr>is_column_family_add := True, column_family_name := name\<rparr>))"
    by (simp add: AddColumnFamily_def IsColumnFamilyManipulation_def)
  have drop: "DropColumnFamily W e =
     (if IsColumnFamilyManipulation e \<or> NumEntries W e \<noteq> 0 then Inl AssertionFailure
      else Inr (e\<lparr>is_column_family_drop := True\<rparr>))"
    by (simp add: DropColumnFamily_def IsColumnFamilyManipulation_def)
  have marked: "NumEntries W e' = 0 \<and> IsColumnFamilyManipulation e' \<and>
      \<not> (IsColumnFamilyAdd e' \<and> IsColumnFamilyDrop e') \<and>
      AddColumnFamily W other e' = Inl AssertionFailure \<and>
      DropColumnFamily W e' = Inl AssertionFailure"
    if "AddColumnFamily W name e = Inr e' \<or> DropColumnFamily W e = Inr e'"
    using that
    by (auto simp: AddColumnFamily_def DropColumnFamily_def IsColumnFamilyManipulation_def
        IsColumnFamilyAdd_def IsColumnFamilyDrop_def NumEntries_def split: if_splits)
  have counted: "AddColumnFamily W name e' = Inl AssertionFailure \<and>
      DropColumnFamily W e' = Inl AssertionFailure"
    if "AddFile level f e = Inr e' \<or> AddWal W n m e = Inr e' \<or>
        (DeleteWalsBefore W n e = Inr e' \<and> \<not> IsEmpty W (WalDeletion1 W n))"
  proof -
    from that have "NumEntries W e' \<noteq> 0"
    proof (elim disjE conjE)
      assume "AddFile level f e = Inr e'"
      then show ?thesis by (simp add: NumEntries_AddFile)
    next
      assume "AddWal W n m e = Inr e'"
      then show ?thesis by (simp add: NumEntries_AddWal)
    next
      assume "DeleteWalsBefore W n e = Inr e'" and "\<not> IsEmpty W (WalDeletion1 W n)"
      then show ?thesis by (rule NumEntries_DeleteWalsBefore)
    qed
    then show ?thesis by (rule nonzero_entries_reject_column_family)
  qed
  have del: "AddColumnFamily W name (DeleteFile level fnum e) = Inl AssertionFailure \<and>
    DropColumnFamily W (DeleteFile level fnum e) = Inl AssertionFailure"
    by (rule nonzero_entries_reject_column_family) (rule NumEntries_DeleteFile)
  have blob: "AddColumnFamily W name (AddBlobFile a e) = Inl AssertionFailure \<and>
    DropColumnFamily W (AddBlobFile a e) = Inl AssertionFailure"
    by (rule nonzero_entries_reject_column_family) (simp add: NumEntries_AddBlobFile)
  have garbage: "AddColumnFamily W name (AddBlobFileGarbage g e) = Inl AssertionFailure \<and>
    DropColumnFamily W (AddBlobFileGarbage g e) = Inl AssertionFailure"
    by (rule nonzero_entries_reject_column_family) (simp add: NumEntries_AddBlobFile)
  show ?thesis
    by (rule conjI [OF add conjI [OF drop conjI [OF impI [OF marked] conjI [OF impI [OF counted]
          conjI [OF del conjI [OF blob garbage]]]]]])
qed

theorem column_family_calls_assert_empty_edit_witness:
  "(\<exists>e'. AddColumnFamily WalDeletion_number ''cf''
            (VersionEdit0 WalDeletion_number :: (unit, WalNumber) VersionEdit) = Inr e' \<and>
          NumEntries WalDeletion_number e' = 0 \<and> IsColumnFamilyManipulation e' \<and>
          AddColumnFamily WalDeletion_number ''other'' e' = Inl AssertionFailure \<and>
          DropColumnFamily WalDeletion_number e' = Inl AssertionFailure) \<and>
   (\<exists>e'. AddFile 0
            (FileMetaData17 8 0 4096 (InternalKey ''a'') (InternalKey ''b'') 3 5 False 0 0 0 0 [] [] [] [] (0, 0))
            (VersionEdit0 WalDeletion_number :: (unit, WalNumber) VersionEdit) = Inr e' \<and>
          AddColumnFamily WalDeletion_number ''cf'' e' = Inl AssertionFailure \<and>
          DropColumnFamily WalDeletion_number e' = Inl AssertionFailure)"
proof -
  let ?W = WalDeletion_number
  let ?e0 = "VersionEdit0 WalDeletion_number :: (unit, WalNumber) VersionEdit"
  let ?f = "FileMetaData17 8 0 4096 (InternalKey ''a'') (InternalKey ''b'') 3 5 False 0 0 0 0 [] [] [] [] (0, 0)"
  obtain e1 where e1: "AddColumnFamily ?W ''cf'' ?e0 = Inr e1"
    by (simp add: AddColumnFamily_def NumEntries_def VersionEdit0_def WalDeletion_number_def)
  obtain e2 where e2: "AddFile 0 ?f ?e0 = Inr e2"
    by (simp add: AddFile_def Let_def)
  note t1 = column_family_calls_assert_empty_edit
    [where W = ?W and name = "''cf''" and e = ?e0 and e' = e1 and other = "''other''"]
  note t2 = column_family_calls_assert_empty_edit
    [where W = ?W and name = "''cf''" and e = ?e0 and e' = e2 and level = 0 and f = ?f]
  from t1 [THEN conjunct2, THEN conjunct2, THEN conjunct1, THEN mp, OF disjI1 [OF e1]]
  have c1: "NumEntries ?W e1 = 0 \<and> IsColumnFamilyManipulation e1 \<and>
      AddColumnFamily ?W ''other'' e1 = Inl AssertionFailure \<and>
      DropColumnFamily ?W e1 = Inl AssertionFailure"
    by simp
  from t2 [THEN conjunct2, THEN conjunct2, THEN conjunct2, THEN conjunct1, THEN mp,
      OF disjI1 [OF e2]]
  have c2: "AddColumnFamily ?W ''cf'' e2 = Inl AssertionFailure \<and>
      DropColumnFamily ?W e2 = Inl AssertionFailure" .
  from e1 c1 e2 c2 show ?thesis by blast
qed

text \<open>
  The claim as stated fails in two ways. A column family can be added after a table
  file was added to the same edit, since \<open>NumEntries()\<close> does not count table files.
  And an edit that carries the marker need not have \<open>NumEntries() = 0\<close>: no call
  checks the marker, so a file can be added after the column family.
\<close>

theorem column_family_after_mutation_counterexample:
  "(\<exists>e. run_calls WalDeletion_number Valid_nonempty
          [Call_AddTableFile18 12 0 100 4096 (InternalKey ''a'') (InternalKey ''c'') 2 9 False 0 0 0 0 [] [] [] [] (0, 0),
           Call_AddColumnFamily ''cf'']
          (VersionEdit0 WalDeletion_number :: (unit, WalNumber) VersionEdit) = Inr e \<and>
        IsColumnFamilyAdd e \<and> length (GetNewTableFiles e) = 1) \<and>
   (\<exists>e. run_calls WalDeletion_number Valid_nonempty
          [Call_AddColumnFamily ''cf'',
           Call_AddFile18 0 11 0 4096 (InternalKey ''a'') (InternalKey ''c'') 3 7 False 0 0 0 0 [] [] [] [] (0, 0)]
          (VersionEdit0 WalDeletion_number :: (unit, WalNumber) VersionEdit) = Inr e \<and>
        IsColumnFamilyAdd e \<and> NumEntries WalDeletion_number e = 1)"
  by (simp add: VersionEdit0_def WalDeletion_number_def AddTableFile18_def AddFile18_def
      AddColumnFamily_def NumEntries_def Let_def HasLastSequence_def GetLastSequence_def
      SetLastSequence_def IsColumnFamilyAdd_def GetNewTableFiles_def)

subsection \<open>WAL additions and deletions in one edit\<close>

text \<open>
  Claim C5. The source says that \<open>AddWal\<close> and \<open>DeleteWalsBefore\<close> cannot be called on
  the same edit, and both assert. The assertion of \<open>DeleteWalsBefore\<close> compares
  \<open>NumEntries() == 1\<close> with the presence of a deletion, so it holds as well when the
  edit has two entries and no deletion: after two calls of \<open>AddWal\<close>, the call
  \<open>DeleteWalsBefore(5)\<close> passes, and the edit holds two WAL additions and a WAL
  deletion.
\<close>

theorem wal_deletion_after_two_additions_accepted:
  "\<exists>e. run_calls WalDeletion_number Valid_nonempty
         [Call_AddWal 1 (), Call_AddWal 2 (), Call_DeleteWalsBefore 5]
         (VersionEdit0 WalDeletion_number :: (unit, WalNumber) VersionEdit) = Inr e \<and>
       GetWalAdditions e = [(1, ()), (2, ())] \<and> GetWalDeletion e = 5 \<and>
       IsWalAddition e \<and> IsWalDeletion WalDeletion_number e"
  by (simp add: VersionEdit0_def WalDeletion_number_def AddWal_def DeleteWalsBefore_def
      NumEntries_def GetWalAdditions_def GetWalDeletion_def IsWalAddition_def IsWalDeletion_def)

text \<open>
  With one addition before the deletion, or with the deletion first, the assertions do
  reject the second call; with two additions first they do not, whatever the
  implementation of \<open>WalDeletion\<close>, as long as a default-constructed one is empty.
\<close>

lemma wal_deletion_after_one_addition_rejected:
  assumes "IsEmpty W (WalDeletion0 W)"
  shows "run_calls W V [Call_AddWal n1 m1, Call_DeleteWalsBefore n] (VersionEdit0 W) =
         Inl AssertionFailure"
  using assms
  by (simp add: VersionEdit0_def AddWal_def DeleteWalsBefore_def NumEntries_def)

lemma wal_addition_after_deletion_rejected:
  assumes "IsEmpty W (WalDeletion0 W)" and "\<not> IsEmpty W (WalDeletion1 W n)"
  shows "run_calls W V [Call_DeleteWalsBefore n, Call_AddWal n1 m1] (VersionEdit0 W) =
         Inl AssertionFailure"
  using assms
  by (simp add: VersionEdit0_def AddWal_def DeleteWalsBefore_def NumEntries_def)

lemma wal_deletion_after_more_additions_accepted:
  assumes "IsEmpty W (WalDeletion0 W)"
  shows "run_calls W V [Call_AddWal n1 m1, Call_AddWal n2 m2, Call_DeleteWalsBefore n]
           (VersionEdit0 W) =
         Inr ((VersionEdit0 W)\<lparr>wal_additions := [(n1, m1), (n2, m2)],
                                wal_deletion := WalDeletion1 W n\<rparr>)"
  using assms
  by (simp add: VersionEdit0_def AddWal_def DeleteWalsBefore_def NumEntries_def)

subsection \<open>Compaction cursors\<close>

lemma SetCompactCursors_loop_eq:
  "SetCompactCursors_loop V v i acc =
     acc @ map (\<lambda>j. (int j, v ! j)) (filter (\<lambda>j. V (v ! j)) [i..<length v])"
proof (induction V v i acc rule: SetCompactCursors_loop.induct)
  case (1 V v i acc)
  show ?case
  proof (cases "i < length v")
    case True
    then have "[i..<length v] = i # [Suc i..<length v]"
      by (rule upt_conv_Cons)
    with True "1.IH" show ?thesis
      by (subst SetCompactCursors_loop.simps) simp
  next
    case False
    then show ?thesis
      by (subst SetCompactCursors_loop.simps) simp
  qed
qed

text \<open>
  Claim C9, as amended. \<open>SetCompactCursors(v)\<close> replaces the cursor list by exactly the
  pairs \<open>(i, v[i])\<close>, in the order of the indices, for the indices at which \<open>v[i]\<close> is
  valid; so every cursor is valid right after it. \<open>AddCompactCursor(level, cursor)\<close>
  appends its pair, valid or not. The predicate \<open>Valid\<close> is a parameter.
\<close>

theorem compact_cursors_set_and_added:
  fixes e :: "('m, 'd) VersionEdit"
  shows
  "GetCompactCursors (SetCompactCursors V v e) =
     map (\<lambda>i. (int i, v ! i)) (filter (\<lambda>i. V (v ! i)) [0..<length v]) \<and>
   (\<forall>c \<in> set (GetCompactCursors (SetCompactCursors V v e)). V (snd c)) \<and>
   (\<forall>i < length v. V (v ! i) \<longleftrightarrow> (int i, v ! i) \<in> set (GetCompactCursors (SetCompactCursors V v e))) \<and>
   GetCompactCursors (AddCompactCursor level cursor e) = GetCompactCursors e @ [(level, cursor)]"
proof -
  have eq: "GetCompactCursors (SetCompactCursors V v e) =
     map (\<lambda>i. (int i, v ! i)) (filter (\<lambda>i. V (v ! i)) [0..<length v])"
    by (simp add: GetCompactCursors_def SetCompactCursors_def SetCompactCursors_loop_eq)
  have valid: "\<forall>c \<in> set (GetCompactCursors (SetCompactCursors V v e)). V (snd c)"
    unfolding eq by auto
  have all: "\<forall>i < length v. V (v ! i) \<longleftrightarrow> (int i, v ! i) \<in> set (GetCompactCursors (SetCompactCursors V v e))"
    unfolding eq by auto
  have add: "GetCompactCursors (AddCompactCursor level cursor e) = GetCompactCursors e @ [(level, cursor)]"
    by (simp add: GetCompactCursors_def AddCompactCursor_def)
  show ?thesis
    by (rule conjI [OF eq conjI [OF valid conjI [OF all add]]])
qed

theorem compact_cursors_set_and_added_witness:
  "GetCompactCursors (SetCompactCursors Valid_nonempty
      [InternalKey ''a'', InternalKey [], InternalKey ''c'']
      (AddCompactCursor 7 (InternalKey ''z'')
         (VersionEdit0 WalDeletion_number :: (unit, WalNumber) VersionEdit))) =
     [(0, InternalKey ''a''), (2, InternalKey ''c'')] \<and>
   (0, InternalKey ''a'') \<in> set (GetCompactCursors (SetCompactCursors Valid_nonempty
      [InternalKey ''a'', InternalKey [], InternalKey ''c'']
      (AddCompactCursor 7 (InternalKey ''z'')
         (VersionEdit0 WalDeletion_number :: (unit, WalNumber) VersionEdit)))) \<and>
   Valid_nonempty (snd (0 :: int, InternalKey ''a''))"
proof -
  let ?v = "[InternalKey ''a'', InternalKey [], InternalKey ''c'']"
  let ?e = "AddCompactCursor 7 (InternalKey ''z'')
         (VersionEdit0 WalDeletion_number :: (unit, WalNumber) VersionEdit)"
  note t = compact_cursors_set_and_added [where V = Valid_nonempty and v = ?v and e = ?e]
  have f: "map (\<lambda>i. (int i, ?v ! i)) (filter (\<lambda>i. Valid_nonempty (?v ! i)) [0..<length ?v]) =
      [(0, InternalKey ''a''), (2, InternalKey ''c'')]"
    by (simp add: Valid_nonempty_def size_key_def upt_rec)
  from t [THEN conjunct1] f
  have c1: "GetCompactCursors (SetCompactCursors Valid_nonempty ?v ?e) =
      [(0, InternalKey ''a''), (2, InternalKey ''c'')]"
    by simp
  then have m: "(0, InternalKey ''a'') \<in> set (GetCompactCursors (SetCompactCursors Valid_nonempty ?v ?e))"
    by simp
  from t [THEN conjunct2, THEN conjunct1, THEN bspec, OF m]
  have c2: "Valid_nonempty (snd (0 :: int, InternalKey ''a''))" .
  from c1 m c2 show ?thesis by blast
qed

text \<open>
  The claim as stated, that every retained cursor is valid after any sequence of these
  calls, fails: \<open>AddCompactCursor\<close> retains a cursor with an empty key.
\<close>

theorem invalid_cursor_added_counterexample:
  "GetCompactCursors (AddCompactCursor 0 (InternalKey [])
      (VersionEdit0 WalDeletion_number :: (unit, WalNumber) VersionEdit)) = [(0, InternalKey [])] \<and>
   size_key (InternalKey []) = 0 \<and> \<not> Valid_nonempty (InternalKey [])"
  by (simp add: GetCompactCursors_def AddCompactCursor_def VersionEdit0_def size_key_def
      Valid_nonempty_def)

subsection \<open>Widening the boundaries of a file\<close>

lemma compare_bytes_refl: "compare_bytes xs xs = 0"
  by (induction xs) auto

lemma compare_bytes_zero: "compare_bytes xs ys = 0 \<Longrightarrow> xs = ys"
  by (induction xs ys rule: compare_bytes.induct) (auto split: if_splits)

lemma compare_bytes_range: "compare_bytes xs ys \<in> {- 1, 0, 1}"
  by (induction xs ys rule: compare_bytes.induct) auto

lemma compare_bytes_swap: "compare_bytes xs ys < 0 \<longleftrightarrow> 0 < compare_bytes ys xs"
  by (induction xs ys rule: compare_bytes.induct) auto

lemma compare_bytes_trans:
  "compare_bytes xs ys < 0 \<Longrightarrow> compare_bytes ys zs < 0 \<Longrightarrow> compare_bytes xs zs < 0"
proof (induction xs ys arbitrary: zs rule: compare_bytes.induct)
  case 1
  then show ?case by simp
next
  case (2 y ys)
  then show ?case by (cases zs) (auto split: if_splits)
next
  case (3 x xs)
  then show ?case by simp
next
  case (4 x xs y ys)
  from "4.prems"(2) obtain z zs' where zs: "zs = z # zs'"
    by (cases zs) auto
  from "4.prems"(1) have a: "x < y \<or> (x = y \<and> compare_bytes xs ys < 0)"
    by (simp split: if_splits)
  from "4.prems"(2) zs have b: "y < z \<or> (y = z \<and> compare_bytes ys zs' < 0)"
    by (simp split: if_splits)
  show ?case
  proof (cases "x < z")
    case True
    with zs show ?thesis by simp
  next
    case False
    with a b have eq: "x = y" "y = z"
      and lt: "compare_bytes xs ys < 0" "compare_bytes ys zs' < 0"
      by auto
    from eq have "\<not> x < y" "\<not> y < x" by simp_all
    from "4.IH" [OF this lt] have "compare_bytes xs zs' < 0" .
    with eq zs show ?thesis by simp
  qed
qed

lemma bytewise_icmp_total_order: "total_order_comparator bytewise_icmp"
proof -
  have inj: "a = b" if "map of_char (rep a) = (map of_char (rep b) :: nat list)" for a b
  proof -
    from that have "rep a = rep b"
      by (simp add: inj_map_eq_map [OF inj_of_char])
    then show ?thesis by (simp add: InternalKey.expand)
  qed
  have zero: "bytewise_icmp a b = 0 \<longleftrightarrow> a = b" for a b
    using compare_bytes_refl compare_bytes_zero inj
    unfolding bytewise_icmp_def by blast
  have swap: "bytewise_icmp a b < 0 \<longleftrightarrow> 0 < bytewise_icmp b a" for a b
    unfolding bytewise_icmp_def by (rule compare_bytes_swap)
  have trans: "bytewise_icmp a c < 0" if "bytewise_icmp a b < 0 \<and> bytewise_icmp b c < 0"
    for a b c
    using that compare_bytes_trans unfolding bytewise_icmp_def by blast
  from zero swap trans show ?thesis
    unfolding total_order_comparator_def by blast
qed

lemma comparator_asym:
  assumes "total_order_comparator icmp" and "icmp a b < 0"
  shows "\<not> icmp b a < 0"
proof -
  from assms have "0 < icmp b a"
    by (simp add: total_order_comparator_def)
  then show ?thesis by simp
qed

lemma comparator_total:
  assumes "total_order_comparator icmp" and "\<not> icmp a b < 0" and "\<not> icmp b a < 0"
  shows "a = b"
proof -
  from assms(1,3) have "\<not> 0 < icmp a b"
    by (simp add: total_order_comparator_def)
  with assms(2) have "icmp a b = 0" by simp
  with assms(1) show ?thesis
    by (simp add: total_order_comparator_def)
qed

lemma comparator_trans:
  assumes "total_order_comparator icmp" and "icmp a b < 0" and "icmp b c < 0"
  shows "icmp a c < 0"
  using assms unfolding total_order_comparator_def by blast

text \<open>The two \<open>if\<close> statements on the keys, taken alone.\<close>

lemma smaller_of_two:
  assumes ord: "total_order_comparator icmp"
  shows "(if icmp k2 k1 < 0 then k2 else k1) = (if icmp k1 k2 < 0 then k1 else k2)"
proof (cases "icmp k2 k1 < 0")
  case True
  with comparator_asym [OF ord True] show ?thesis by simp
next
  case False
  show ?thesis
  proof (cases "icmp k1 k2 < 0")
    case True
    with False show ?thesis by simp
  next
    case no: False
    from comparator_total [OF ord no False] show ?thesis by simp
  qed
qed

lemma lower_key_commute:
  assumes ord: "total_order_comparator icmp"
    and ne: "size_key k1 \<noteq> 0" "size_key k2 \<noteq> 0"
  shows "(let x1 = (if size_key x = 0 \<or> icmp k1 x < 0 then k1 else x)
          in if size_key x1 = 0 \<or> icmp k2 x1 < 0 then k2 else x1) =
         (let x2 = (if size_key x = 0 \<or> icmp k2 x < 0 then k2 else x)
          in if size_key x2 = 0 \<or> icmp k1 x2 < 0 then k1 else x2)"
proof (cases "size_key x = 0")
  case True
  with ne smaller_of_two [OF ord, of k2 k1] show ?thesis by simp
next
  case False
  show ?thesis
  proof (cases "icmp k1 x < 0")
    case k1: True
    show ?thesis
    proof (cases "icmp k2 x < 0")
      case True
      with k1 False ne smaller_of_two [OF ord, of k2 k1] show ?thesis by simp
    next
      case k2: False
      have "\<not> icmp k2 k1 < 0"
        using comparator_trans [OF ord _ k1] k2 by blast
      with k1 k2 False ne show ?thesis by simp
    qed
  next
    case k1: False
    show ?thesis
    proof (cases "icmp k2 x < 0")
      case k2: True
      have "\<not> icmp k1 k2 < 0"
        using comparator_trans [OF ord _ k2] k1 by blast
      with k1 k2 False ne show ?thesis by simp
    next
      case False
      with k1 \<open>size_key x \<noteq> 0\<close> show ?thesis by simp
    qed
  qed
qed

lemma upper_key_commute:
  assumes ord: "total_order_comparator icmp"
    and ne: "size_key k1 \<noteq> 0" "size_key k2 \<noteq> 0"
  shows "(let x1 = (if size_key x = 0 \<or> icmp x k1 < 0 then k1 else x)
          in if size_key x1 = 0 \<or> icmp x1 k2 < 0 then k2 else x1) =
         (let x2 = (if size_key x = 0 \<or> icmp x k2 < 0 then k2 else x)
          in if size_key x2 = 0 \<or> icmp x2 k1 < 0 then k1 else x2)"
proof (cases "size_key x = 0")
  case True
  with ne smaller_of_two [OF ord, of k2 k1] show ?thesis by auto
next
  case False
  show ?thesis
  proof (cases "icmp x k1 < 0")
    case k1: True
    show ?thesis
    proof (cases "icmp x k2 < 0")
      case True
      with k1 False ne smaller_of_two [OF ord, of k2 k1] show ?thesis by auto
    next
      case k2: False
      have "\<not> icmp k1 k2 < 0"
        using comparator_trans [OF ord k1] k2 by blast
      with k1 k2 False ne show ?thesis by simp
    qed
  next
    case k1: False
    show ?thesis
    proof (cases "icmp x k2 < 0")
      case k2: True
      have "\<not> icmp k2 k1 < 0"
        using comparator_trans [OF ord k2] k1 by blast
      with k1 k2 False ne show ?thesis by simp
    next
      case False
      with k1 \<open>size_key x \<noteq> 0\<close> show ?thesis by simp
    qed
  qed
qed

lemma UpdateBoundariesForRange_fields:
  "smallest (UpdateBoundariesForRange start end_key seqno icmp f) =
     (if size_key (smallest f) = 0 \<or> icmp start (smallest f) < 0 then start else smallest f)"
  "largest (UpdateBoundariesForRange start end_key seqno icmp f) =
     (if size_key (largest f) = 0 \<or> icmp (largest f) end_key < 0 then end_key else largest f)"
  "smallest_seqno (fd (UpdateBoundariesForRange start end_key seqno icmp f)) =
     min (smallest_seqno (fd f)) seqno"
  "largest_seqno (fd (UpdateBoundariesForRange start end_key seqno icmp f)) =
     max (largest_seqno (fd f)) seqno"
  by (simp_all add: UpdateBoundariesForRange_def Let_def)

lemma UpdateBoundariesForRange_record:
  "UpdateBoundariesForRange start end_key seqno icmp f =
     f\<lparr>smallest :=
         (if size_key (smallest f) = 0 \<or> icmp start (smallest f) < 0 then start else smallest f),
       largest :=
         (if size_key (largest f) = 0 \<or> icmp (largest f) end_key < 0 then end_key else largest f),
       fd := (fd f)\<lparr>smallest_seqno := min (smallest_seqno (fd f)) seqno,
                      largest_seqno := max (largest_seqno (fd f)) seqno\<rparr>\<rparr>"
  by (simp add: UpdateBoundariesForRange_def Let_def)

lemma UpdateBoundariesForRange_commute:
  assumes ord: "total_order_comparator icmp"
    and ne: "size_key s1 \<noteq> 0" "size_key e1 \<noteq> 0" "size_key s2 \<noteq> 0" "size_key e2 \<noteq> 0"
  shows "UpdateBoundariesForRange s2 e2 q2 icmp (UpdateBoundariesForRange s1 e1 q1 icmp f) =
         UpdateBoundariesForRange s1 e1 q1 icmp (UpdateBoundariesForRange s2 e2 q2 icmp f)"
proof -
  let ?g = "UpdateBoundariesForRange s2 e2 q2 icmp (UpdateBoundariesForRange s1 e1 q1 icmp f)"
  let ?h = "UpdateBoundariesForRange s1 e1 q1 icmp (UpdateBoundariesForRange s2 e2 q2 icmp f)"
  have lo: "smallest ?g = smallest ?h"
    using lower_key_commute [OF ord ne(1,3), of "smallest f"]
    by (simp only: UpdateBoundariesForRange_fields Let_def)
  have hi: "largest ?g = largest ?h"
    using upper_key_commute [OF ord ne(2,4), of "largest f"]
    by (simp only: UpdateBoundariesForRange_fields Let_def)
  have mn: "min (min (smallest_seqno (fd f)) q1) q2 = min (min (smallest_seqno (fd f)) q2) q1"
    by (simp add: min.commute min.left_commute)
  have mx: "max (max (largest_seqno (fd f)) q1) q2 = max (max (largest_seqno (fd f)) q2) q1"
    by (simp add: max.commute max.left_commute)
  have "?g = f\<lparr>smallest := smallest ?g, largest := largest ?g,
                 fd := (fd f)\<lparr>smallest_seqno := min (min (smallest_seqno (fd f)) q1) q2,
                                largest_seqno := max (max (largest_seqno (fd f)) q1) q2\<rparr>\<rparr>"
    by (simp add: UpdateBoundariesForRange_record)
  moreover have "?h = f\<lparr>smallest := smallest ?h, largest := largest ?h,
                 fd := (fd f)\<lparr>smallest_seqno := min (min (smallest_seqno (fd f)) q2) q1,
                                largest_seqno := max (max (largest_seqno (fd f)) q2) q1\<rparr>\<rparr>"
    by (simp add: UpdateBoundariesForRange_record)
  ultimately show ?thesis
    using lo hi mn mx by simp
qed

lemma UpdateBoundariesForRanges_fold:
  "UpdateBoundariesForRanges icmp rs f =
     fold (\<lambda>r. case r of (s, e, q) \<Rightarrow> UpdateBoundariesForRange s e q icmp) rs f"
  by (induction icmp rs f rule: UpdateBoundariesForRanges.induct) simp_all

lemma UpdateBoundariesForRanges_permute:
  assumes ord: "total_order_comparator icmp"
    and ne: "\<forall>r \<in> set rs. range_keys_nonempty r"
    and perm: "mset rs = mset rs'"
  shows "UpdateBoundariesForRanges icmp rs f = UpdateBoundariesForRanges icmp rs' f"
proof -
  let ?step = "\<lambda>r. case r of (s, e, q) \<Rightarrow> UpdateBoundariesForRange s e q icmp"
  have "?step x \<circ> ?step y = ?step y \<circ> ?step x" if "x \<in> set rs" and "y \<in> set rs" for x y
  proof -
    obtain s1 e1 q1 where x: "x = (s1, e1, q1)" by (cases x)
    obtain s2 e2 q2 where y: "y = (s2, e2, q2)" by (cases y)
    from ne that x y have "size_key s1 \<noteq> 0" "size_key e1 \<noteq> 0" "size_key s2 \<noteq> 0" "size_key e2 \<noteq> 0"
      by (auto simp: range_keys_nonempty_def)
    from UpdateBoundariesForRange_commute [OF ord this(3,4,1,2)] x y
    show ?thesis by (simp add: fun_eq_iff)
  qed
  from fold_multiset_equiv [of rs ?step rs', OF this perm]
  show ?thesis by (simp add: UpdateBoundariesForRanges_fold)
qed


text \<open>
  Claim C8. After \<open>UpdateBoundariesForRange(start, end, seq, icmp)\<close> the smallest key
  is \<open>start\<close> if the previous smallest key was empty or \<open>start\<close> compares below it, and
  is unchanged otherwise; the largest key is \<open>end\<close> if the previous largest key was
  empty or compared below \<open>end\<close>, and is unchanged otherwise; the smallest sequence
  number is the minimum of its previous value and \<open>seq\<close>, the largest the maximum.
  Consequently two lists of ranges that are permutations of each other leave the same
  metadata. The comparator is the total order on internal keys that the interface of
  the comparator promises, and the keys of a range are keys, hence not empty: the empty
  key is the value by which the function recognises a boundary that was never set.
\<close>

theorem update_boundaries_for_range_widens:
  "smallest (UpdateBoundariesForRange start end_key seqno icmp f) =
     (if size_key (smallest f) = 0 \<or> icmp start (smallest f) < 0 then start else smallest f) \<and>
   largest (UpdateBoundariesForRange start end_key seqno icmp f) =
     (if size_key (largest f) = 0 \<or> icmp (largest f) end_key < 0 then end_key else largest f) \<and>
   smallest_seqno (fd (UpdateBoundariesForRange start end_key seqno icmp f)) =
     min (smallest_seqno (fd f)) seqno \<and>
   largest_seqno (fd (UpdateBoundariesForRange start end_key seqno icmp f)) =
     max (largest_seqno (fd f)) seqno \<and>
   (total_order_comparator icmp \<and> (\<forall>r \<in> set rs. range_keys_nonempty r) \<and>
    mset rs = mset rs' \<longrightarrow>
      UpdateBoundariesForRanges icmp rs f = UpdateBoundariesForRanges icmp rs' f)"
  using UpdateBoundariesForRanges_permute [of icmp rs rs' f]
  by (simp only: UpdateBoundariesForRange_fields simp_thms) blast

theorem update_boundaries_for_range_widens_witness:
  "total_order_comparator bytewise_icmp \<and>
   range_keys_nonempty (InternalKey ''b'', InternalKey ''d'', 7 :: SequenceNumber) \<and>
   range_keys_nonempty (InternalKey ''a'', InternalKey ''c'', 3 :: SequenceNumber) \<and>
   mset [(InternalKey ''b'', InternalKey ''d'', 7 :: SequenceNumber),
         (InternalKey ''a'', InternalKey ''c'', 3)] =
   mset [(InternalKey ''a'', InternalKey ''c'', 3),
         (InternalKey ''b'', InternalKey ''d'', 7 :: SequenceNumber)] \<and>
   UpdateBoundariesForRanges bytewise_icmp
     [(InternalKey ''b'', InternalKey ''d'', 7), (InternalKey ''a'', InternalKey ''c'', 3)]
     (FileMetaData17 1 0 0 (InternalKey []) (InternalKey []) 5 5 False 0 0 0 0 [] [] [] [] (0, 0)) =
   UpdateBoundariesForRanges bytewise_icmp
     [(InternalKey ''a'', InternalKey ''c'', 3), (InternalKey ''b'', InternalKey ''d'', 7)]
     (FileMetaData17 1 0 0 (InternalKey []) (InternalKey []) 5 5 False 0 0 0 0 [] [] [] [] (0, 0))"
proof -
  let ?rs = "[(InternalKey ''b'', InternalKey ''d'', 7 :: SequenceNumber),
              (InternalKey ''a'', InternalKey ''c'', 3)]"
  let ?rs' = "[(InternalKey ''a'', InternalKey ''c'', 3),
               (InternalKey ''b'', InternalKey ''d'', 7 :: SequenceNumber)]"
  let ?f = "FileMetaData17 1 0 0 (InternalKey []) (InternalKey []) 5 5 False 0 0 0 0 [] [] [] [] (0, 0)"
  have ne: "\<forall>r \<in> set ?rs. range_keys_nonempty r"
    by (simp add: range_keys_nonempty_def size_key_def)
  have perm: "mset ?rs = mset ?rs'" by simp
  from update_boundaries_for_range_widens [where icmp = bytewise_icmp and rs = ?rs
      and rs' = ?rs' and f = ?f, THEN conjunct2, THEN conjunct2, THEN conjunct2,
      THEN conjunct2, THEN mp, OF conjI [OF bytewise_icmp_total_order conjI [OF ne perm]]]
  have "UpdateBoundariesForRanges bytewise_icmp ?rs ?f =
        UpdateBoundariesForRanges bytewise_icmp ?rs' ?f" .
  moreover have "range_keys_nonempty (InternalKey ''b'', InternalKey ''d'', 7 :: SequenceNumber)"
    and "range_keys_nonempty (InternalKey ''a'', InternalKey ''c'', 3 :: SequenceNumber)"
    using ne by simp_all
  ultimately show ?thesis
    using bytewise_icmp_total_order perm by blast
qed

end
